theory Spec2Isabelle
  imports Main "HOL-Library.AList"
begin

section \<open>Data model\<close>

text \<open>
  The tables of the shared schema (\<^verbatim>\<open>users\<close>, \<^verbatim>\<open>chat_rooms\<close>, \<^verbatim>\<open>messages\<close>) and the
  in-memory registry entry \<^verbatim>\<open>ChatUser\<close> of \<^verbatim>\<open>chatService.ts\<close>. Identifiers are the
  \<^verbatim>\<open>varchar\<close> values of the schema, a nullable column is an \<open>option\<close>, a timestamp is a
  natural number, and a WebSocket object is identified by a number. A string that the code
  only compares or passes on is a \<open>string\<close>; the two strings whose characters the code
  inspects (the names that are trimmed, the text that is URI-encoded) are lists of UTF-16
  code units, as JavaScript strings are.
\<close>

type_synonym socket = nat
type_synonym timestamp = nat
type_synonym utf16 = "nat list"

record User =
  user_id :: string
  firstName :: "utf16 option"
  lastName :: "utf16 option"
  user_preferredLanguage :: string

record ChatRoom =
  room_id :: string
  user1Id :: string
  user2Id :: "string option"
  isActive :: bool
  room_createdAt :: "timestamp option"
  endedAt :: "timestamp option"

record Message =
  msg_id :: string
  msg_chatRoomId :: string
  msg_senderId :: string
  msg_content :: string
  msg_originalLanguage :: string
  msg_createdAt :: "timestamp option"

record ChatUser =
  userId :: string
  socket :: socket
  chatRoomId :: "string option"
  preferredLanguage :: string

text \<open>
  Server-to-client envelopes (the interface \<^verbatim>\<open>ChatMessage\<close>), one constructor per value of
  \<^verbatim>\<open>type\<close>, with the fields the service sets for that kind:
  \<open>MessageEv chatRoomId senderId content originalLanguage timestamp\<close>,
  \<open>UserJoined chatRoomId otherUser.id otherUser.name otherUser.preferredLanguage\<close>,
  \<open>UserLeft message\<close>, \<open>Translation translatedContent originalLanguage targetLanguage\<close>,
  \<open>TypingEv senderId isTyping\<close>, \<open>ErrorEv error\<close>, \<open>Waiting message\<close>.
\<close>

datatype ChatMessage =
    MessageEv "string option" string "string option" string "timestamp option"
  | UserJoined string string utf16 string
  | UserLeft string
  | Translation "string option" "string option" "string option"
  | TypingEv string "bool option"
  | ErrorEv string
  | Waiting string

text \<open>
  Client-to-server envelopes after \<^verbatim>\<open>JSON.parse\<close>, by \<^verbatim>\<open>message.type\<close>. The payload is
  untyped in the source; a field is modelled as absent (\<open>None\<close>) or a string (the text
  to translate by its code units):
  \<open>Join userId preferredLanguage\<close>, \<open>SendMessage userId content chatRoomId\<close>,
  \<open>TranslateMessage userId content sourceLanguage targetLanguage\<close>,
  \<open>Typing userId chatRoomId isTyping\<close>, \<open>LeaveChat userId chatRoomId\<close>.
\<close>

datatype ClientMessage =
    Join "string option" "string option"
  | SendMessage "string option" "string option" "string option"
  | TranslateMessage "string option" "utf16 option" "string option" "string option"
  | Typing "string option" "string option" "bool option"
  | LeaveChat "string option" "string option"
  | UnknownType

datatype error = DbError | TypeError | TranslateError

text \<open>
  The reply of the external translation API as \<^verbatim>\<open>translateText\<close> observes it: \<^verbatim>\<open>fetch\<close>
  rejects, or a response with its \<^verbatim>\<open>ok\<close> flag and a body; the body does not parse, parses to
  \<^verbatim>\<open>null\<close>, or parses to a value with the properties \<^verbatim>\<open>responseStatus\<close> and
  \<^verbatim>\<open>responseData\<close>.
\<close>

datatype status_val = StatusMissing | StatusNum int | StatusStr string

datatype resp_data = DataMissing | Data "string option"

datatype json_body = NotJson | JsonNull | JsonObject status_val resp_data

datatype http_reply = FetchFailed | Reply bool json_body

record TranslationResult =
  translatedText :: "string option"
  sourceLanguage :: "string option"
  targetLanguage :: "string option"

text \<open>
  What the outside world contributes to one handler run: \<open>dbOk k\<close> tells whether the
  \<open>k\<close>-th storage query of the handler is executed (otherwise the driver throws),
  \<open>uuid\<close> is the value of \<^verbatim>\<open>gen_random_uuid()\<close> for an inserted row, \<open>slot\<close> is the place
  the store gives a new \<^verbatim>\<open>chat_rooms\<close> row in the order in which a \<^verbatim>\<open>SELECT\<close> without
  \<^verbatim>\<open>ORDER BY\<close> returns rows, \<open>now\<close> is the clock, \<open>api\<close> the translation API's reply.
\<close>

record env =
  dbOk :: "nat \<Rightarrow> bool"
  uuid :: string
  slot :: nat
  now :: timestamp
  api :: http_reply

text \<open>
  The state: the registry \<^verbatim>\<open>ChatService.users\<close> (a JavaScript \<^verbatim>\<open>Map\<close>, kept in insertion
  order), the three tables, the sockets whose \<^verbatim>\<open>readyState\<close> is \<^verbatim>\<open>OPEN\<close>, and every
  envelope written to a socket so far. \<open>chatRooms\<close> is kept in the order in which an unordered
  \<^verbatim>\<open>SELECT\<close> returns its rows; an update leaves a row at its place (a row that was
  updated once never matches the unordered search of \<^verbatim>\<open>findOrCreateChatRoom\<close> again).
\<close>

record state =
  users :: "(string \<times> ChatUser) list"
  usersTable :: "User list"
  chatRooms :: "ChatRoom list"
  messages :: "Message list"
  openSockets :: "socket set"
  outbox :: "(socket \<times> ChatMessage) list"

section \<open>storage.ts\<close>

definition getUser :: "bool \<Rightarrow> string \<Rightarrow> state \<Rightarrow> error + User option" where
  "getUser ok i st =
     (if \<not> ok then Inl DbError
      else Inr (find (\<lambda>u. user_id u = i) (usersTable st)))"

text \<open>
  \<^verbatim>\<open>createChatRoom\<close>: the insert fails on a duplicate primary key and on a participant that
  is not in \<^verbatim>\<open>users\<close> (the foreign keys of the schema); \<^verbatim>\<open>id\<close>, \<^verbatim>\<open>isActive\<close> and
  \<^verbatim>\<open>createdAt\<close> take the schema's defaults.
\<close>

definition createChatRoom ::
  "bool \<Rightarrow> env \<Rightarrow> string \<Rightarrow> string option \<Rightarrow> state \<Rightarrow> error + ChatRoom \<times> state" where
  "createChatRoom ok e u1 u2 st =
     (if \<not> ok then Inl DbError
      else if uuid e \<in> room_id ` set (chatRooms st) then Inl DbError
      else if u1 \<notin> user_id ` set (usersTable st) then Inl DbError
      else if (case u2 of None \<Rightarrow> False | Some u \<Rightarrow> u \<notin> user_id ` set (usersTable st))
        then Inl DbError
      else
        (let chatRoom = \<lparr>room_id = uuid e, user1Id = u1, user2Id = u2, isActive = True,
                          room_createdAt = Some (now e), endedAt = None\<rparr>
         in Inr (chatRoom,
                 st\<lparr>chatRooms :=
                      take (slot e) (chatRooms st) @ chatRoom # drop (slot e) (chatRooms st)\<rparr>)))"

text \<open>The \<^verbatim>\<open>WHERE\<close> clause of the search in \<^verbatim>\<open>findOrCreateChatRoom\<close>.\<close>

definition waitingFor :: "string \<Rightarrow> ChatRoom \<Rightarrow> bool" where
  "waitingFor uid r = (user2Id r = None \<and> isActive r = True \<and> user1Id r \<noteq> uid)"

text \<open>
  \<^verbatim>\<open>findOrCreateChatRoom\<close> runs two queries, numbered \<open>k\<close> and \<open>k + 1\<close>: the search with
  \<^verbatim>\<open>LIMIT 1\<close>, then the update of the row found (all rows with its id, the first returned
  row is the result) or the insert of a new row. An empty \<^verbatim>\<open>RETURNING\<close> leaves the result
  undefined, and the caller's \<^verbatim>\<open>chatRoom.id\<close> throws.
\<close>

definition findOrCreateChatRoom ::
  "env \<Rightarrow> nat \<Rightarrow> string \<Rightarrow> state \<Rightarrow> error + ChatRoom \<times> state" where
  "findOrCreateChatRoom e k uid st =
     (if \<not> dbOk e k then Inl DbError
      else
        (case find (waitingFor uid) (chatRooms st) of
           Some existingRoom \<Rightarrow>
             (if \<not> dbOk e (k + 1) then Inl DbError
              else if uid \<notin> user_id ` set (usersTable st) then Inl DbError
              else
                (let rooms' = map (\<lambda>r. if room_id r = room_id existingRoom
                                        then r\<lparr>user2Id := Some uid\<rparr> else r) (chatRooms st)
                 in (case filter (\<lambda>r. room_id r = room_id existingRoom) rooms' of
                       [] \<Rightarrow> Inl TypeError
                     | updatedRoom # _ \<Rightarrow> Inr (updatedRoom, st\<lparr>chatRooms := rooms'\<rparr>))))
         | None \<Rightarrow> createChatRoom (dbOk e (k + 1)) e uid None st))"

definition getChatRoom :: "bool \<Rightarrow> string option \<Rightarrow> state \<Rightarrow> error + ChatRoom option" where
  "getChatRoom ok i st =
     (if \<not> ok then Inl DbError
      else Inr (find (\<lambda>r. Some (room_id r) = i) (chatRooms st)))"

definition endChatRoom :: "bool \<Rightarrow> env \<Rightarrow> string option \<Rightarrow> state \<Rightarrow> error + state" where
  "endChatRoom ok e i st =
     (if \<not> ok then Inl DbError
      else Inr (st\<lparr>chatRooms :=
                    map (\<lambda>r. if Some (room_id r) = i
                             then r\<lparr>isActive := False, endedAt := Some (now e)\<rparr> else r)
                        (chatRooms st)\<rparr>))"

text \<open>
  \<^verbatim>\<open>createMessage\<close>: \<^verbatim>\<open>chatRoomId\<close> and \<^verbatim>\<open>content\<close> are \<^verbatim>\<open>NOT NULL\<close>, \<^verbatim>\<open>chatRoomId\<close> and
  \<^verbatim>\<open>senderId\<close> are foreign keys, \<^verbatim>\<open>id\<close> is the primary key.
\<close>

definition createMessage ::
  "bool \<Rightarrow> env \<Rightarrow> string option \<Rightarrow> string \<Rightarrow> string option \<Rightarrow> string \<Rightarrow> state
     \<Rightarrow> error + Message \<times> state" where
  "createMessage ok e rid sender content lang st =
     (if \<not> ok then Inl DbError
      else
        (case (rid, content) of
           (Some r, Some c) \<Rightarrow>
             (if uuid e \<in> msg_id ` set (messages st) then Inl DbError
              else if r \<notin> room_id ` set (chatRooms st) then Inl DbError
              else if sender \<notin> user_id ` set (usersTable st) then Inl DbError
              else
                (let m = \<lparr>msg_id = uuid e, msg_chatRoomId = r, msg_senderId = sender,
                           msg_content = c, msg_originalLanguage = lang,
                           msg_createdAt = Some (now e)\<rparr>
                 in Inr (m, st\<lparr>messages := messages st @ [m]\<rparr>)))
         | _ \<Rightarrow> Inl DbError))"

section \<open>translationService.ts\<close>

text \<open>
  \<^verbatim>\<open>encodeURIComponent\<close> throws a \<^verbatim>\<open>URIError\<close> on a string with a lone surrogate: a low
  surrogate that no high surrogate precedes, or a high surrogate that no low surrogate
  follows. An absent text is encoded as the word \<^verbatim>\<open>undefined\<close>.
\<close>

definition isHighSurrogate :: "nat \<Rightarrow> bool" where
  "isHighSurrogate c = (0xD800 \<le> c \<and> c \<le> 0xDBFF)"

definition isLowSurrogate :: "nat \<Rightarrow> bool" where
  "isLowSurrogate c = (0xDC00 \<le> c \<and> c \<le> 0xDFFF)"

fun encodable :: "utf16 \<Rightarrow> bool" where
  "encodable [] = True"
| "encodable [c] = (\<not> isHighSurrogate c \<and> \<not> isLowSurrogate c)"
| "encodable (c # d # cs) =
     (if isHighSurrogate c then isLowSurrogate d \<and> encodable cs
      else \<not> isLowSurrogate c \<and> encodable (d # cs))"

definition uriEncodable :: "utf16 option \<Rightarrow> bool" where
  "uriEncodable text = (case text of None \<Rightarrow> True | Some cs \<Rightarrow> encodable cs)"

text \<open>
  \<^verbatim>\<open>translateText\<close>: every exception of the body (a text that cannot be URI-encoded, a
  rejected \<^verbatim>\<open>fetch\<close>, a response that is not \<^verbatim>\<open>ok\<close>, a body that is not JSON, a property
  read on \<^verbatim>\<open>null\<close> or on a missing \<^verbatim>\<open>responseData\<close>, a \<^verbatim>\<open>responseStatus\<close> that is not
  the number 200) is caught and rethrown as \<^verbatim>\<open>Failed to translate text\<close>. The URL is built
  before the call, so a text that cannot be encoded fails without any call.
\<close>

definition translateText ::
  "http_reply \<Rightarrow> utf16 option \<Rightarrow> string option \<Rightarrow> string option \<Rightarrow> error + TranslationResult" where
  "translateText reply text sourceLang targetLang =
     (if \<not> uriEncodable text then Inl TranslateError
      else
        (case reply of
           FetchFailed \<Rightarrow> Inl TranslateError
         | Reply ok body \<Rightarrow>
             if \<not> ok then Inl TranslateError
             else
               (case body of
                  NotJson \<Rightarrow> Inl TranslateError
                | JsonNull \<Rightarrow> Inl TranslateError
                | JsonObject status rdata \<Rightarrow>
                    if status \<noteq> StatusNum 200 then Inl TranslateError
                    else
                      (case rdata of
                         DataMissing \<Rightarrow> Inl TranslateError
                       | Data t \<Rightarrow>
                           Inr \<lparr>translatedText = t, sourceLanguage = sourceLang,
                                targetLanguage = targetLang\<rparr>))))"

section \<open>chatService.ts\<close>

text \<open>JavaScript truthiness of a value that is absent or a string.\<close>

fun truthy :: "string option \<Rightarrow> bool" where
  "truthy None = False"
| "truthy (Some s) = (s \<noteq> [])"

text \<open>\<^verbatim>\<open>a || b\<close> for an optional string \<open>a\<close>.\<close>

definition orElse :: "'a list option \<Rightarrow> 'a list \<Rightarrow> 'a list" where
  "orElse a b = (case a of None \<Rightarrow> b | Some s \<Rightarrow> if s = [] then b else s)"

text \<open>
  \<^verbatim>\<open>String.prototype.trim\<close> removes the white space and line terminator code units of
  ECMAScript at both ends.
\<close>

definition isSpace :: "nat \<Rightarrow> bool" where
  "isSpace c =
     (c \<in> set [0x0009, 0x000A, 0x000B, 0x000C, 0x000D, 0x0020, 0x00A0, 0x1680, 0x2028,
                0x2029, 0x202F, 0x205F, 0x3000, 0xFEFF]
      \<or> (0x2000 \<le> c \<and> c \<le> 0x200A))"

definition trim :: "utf16 \<Rightarrow> utf16" where
  "trim s = rev (dropWhile isSpace (rev (dropWhile isSpace s)))"

text \<open>The code units of a string of the model (one per character).\<close>

definition codeUnits :: "string \<Rightarrow> utf16" where
  "codeUnits s = map of_char s"

text \<open>The display name built in \<^verbatim>\<open>matchUsers\<close> from an optional directory row.\<close>

definition displayName :: "User option \<Rightarrow> utf16" where
  "displayName details =
     (let f = (case details of None \<Rightarrow> [] | Some d \<Rightarrow> orElse (firstName d) []);
          l = (case details of None \<Rightarrow> [] | Some d \<Rightarrow> orElse (lastName d) []);
          n = trim (f @ codeUnits '' '' @ l)
      in if n = [] then codeUnits ''Anonymous'' else n)"

definition sendToUser :: "string \<Rightarrow> ChatMessage \<Rightarrow> state \<Rightarrow> state" where
  "sendToUser uid msg st =
     (case map_of (users st) uid of
        None \<Rightarrow> st
      | Some user \<Rightarrow>
          if socket user \<in> openSockets st
          then st\<lparr>outbox := outbox st @ [(socket user, msg)]\<rparr> else st)"

definition sendError :: "socket \<Rightarrow> string \<Rightarrow> state \<Rightarrow> state" where
  "sendError sock err st =
     (if sock \<in> openSockets st
      then st\<lparr>outbox := outbox st @ [(sock, ErrorEv err)]\<rparr> else st)"

text \<open>The assignment \<^verbatim>\<open>user.chatRoomId = v\<close> on the registry entry of \<open>uid\<close>.\<close>

definition setChatRoomId :: "string \<Rightarrow> string option \<Rightarrow> state \<Rightarrow> state" where
  "setChatRoomId uid v st =
     st\<lparr>users := AList.map_entry uid (\<lambda>u. u\<lparr>chatRoomId := v\<rparr>) (users st)\<rparr>"

text \<open>
  \<^verbatim>\<open>chatRoom.user1Id === userId ? chatRoom.user2Id : chatRoom.user1Id\<close>
\<close>

definition otherUserIdOf :: "string option \<Rightarrow> ChatRoom \<Rightarrow> string option" where
  "otherUserIdOf uid chatRoom =
     (if Some (user1Id chatRoom) = uid then user2Id chatRoom else Some (user1Id chatRoom))"

text \<open>
  \<^verbatim>\<open>matchUsers\<close>; its storage queries are numbered 1 to 4 (query 0 is the directory lookup
  of \<^verbatim>\<open>handleUserJoin\<close>). An exception inside the \<^verbatim>\<open>try\<close> block keeps the assignments made
  before it.
\<close>

definition matchUsers :: "env \<Rightarrow> string \<Rightarrow> state \<Rightarrow> state" where
  "matchUsers e uid st =
     (case map_of (users st) uid of
        None \<Rightarrow> st
      | Some user \<Rightarrow>
          (case findOrCreateChatRoom e 1 uid st of
             Inl err \<Rightarrow> sendError (socket user) ''Failed to join chat'' st
           | Inr (chatRoom, st1) \<Rightarrow>
               (let st2 = setChatRoomId uid (Some (room_id chatRoom)) st1
                in if truthy (user2Id chatRoom) then
                     (case otherUserIdOf (Some uid) chatRoom of
                        None \<Rightarrow> st2
                      | Some otherUserId \<Rightarrow>
                          (case map_of (users st2) otherUserId of
                             None \<Rightarrow> st2
                           | Some otherUser \<Rightarrow>
                               (let st3 = setChatRoomId otherUserId (Some (room_id chatRoom)) st2
                                in (case getUser (dbOk e 3) uid st3 of
                                      Inl err \<Rightarrow> sendError (socket user) ''Failed to join chat'' st3
                                    | Inr userDetails \<Rightarrow>
                                        (case getUser (dbOk e 4) otherUserId st3 of
                                           Inl err \<Rightarrow>
                                             sendError (socket user) ''Failed to join chat'' st3
                                         | Inr otherUserDetails \<Rightarrow>
                                             sendToUser otherUserId
                                               (UserJoined (room_id chatRoom) uid
                                                  (displayName userDetails)
                                                  (preferredLanguage user))
                                               (sendToUser uid
                                                  (UserJoined (room_id chatRoom) otherUserId
                                                     (displayName otherUserDetails)
                                                     (preferredLanguage otherUser))
                                                  st3))))))
                   else sendToUser uid (Waiting ''Waiting for another user to join...'') st2)))"

text \<open>
  \<^verbatim>\<open>handleUserJoin\<close>: the directory lookup is outside any \<^verbatim>\<open>try\<close>, so its exception
  reaches the caller.
\<close>

definition handleUserJoin ::
  "socket \<Rightarrow> env \<Rightarrow> string option \<Rightarrow> string option \<Rightarrow> state \<Rightarrow> error + state" where
  "handleUserJoin sock e uidOpt lang st =
     (case uidOpt of
        None \<Rightarrow> Inr (sendError sock ''User ID is required'' st)
      | Some uid \<Rightarrow>
          if uid = [] then Inr (sendError sock ''User ID is required'' st)
          else
            (case getUser (dbOk e 0) uid st of
               Inl err \<Rightarrow> Inl err
             | Inr None \<Rightarrow> Inr (sendError sock ''User not found'' st)
             | Inr (Some user) \<Rightarrow>
                 (let chatUser = \<lparr>userId = uid, socket = sock, chatRoomId = None,
                                  preferredLanguage = orElse lang (user_preferredLanguage user)\<rparr>
                  in Inr (matchUsers e uid
                            (st\<lparr>users := AList.update uid chatUser (users st)\<rparr>)))))"

definition handleSendMessage ::
  "socket \<Rightarrow> env \<Rightarrow> string option \<Rightarrow> string option \<Rightarrow> string option \<Rightarrow> state \<Rightarrow> state" where
  "handleSendMessage sock e uidOpt content rid st =
     (case uidOpt of
        None \<Rightarrow> sendError sock ''Invalid chat room'' st
      | Some uid \<Rightarrow>
          (case map_of (users st) uid of
             None \<Rightarrow> sendError sock ''Invalid chat room'' st
           | Some user \<Rightarrow>
               if chatRoomId user \<noteq> rid then sendError sock ''Invalid chat room'' st
               else
                 (case createMessage (dbOk e 0) e rid uid content (preferredLanguage user) st of
                    Inl err \<Rightarrow> sendError sock ''Failed to send message'' st
                  | Inr (savedMessage, st1) \<Rightarrow>
                      (case getChatRoom (dbOk e 1) rid st1 of
                         Inl err \<Rightarrow> sendError sock ''Failed to send message'' st1
                       | Inr None \<Rightarrow> sendError sock ''Chat room not found'' st1
                       | Inr (Some chatRoom) \<Rightarrow>
                           (let otherUserId = otherUserIdOf (Some uid) chatRoom;
                                messageToSend =
                                  MessageEv rid uid content (preferredLanguage user)
                                    (msg_createdAt savedMessage);
                                st2 = sendToUser uid messageToSend st1
                            in (case otherUserId of
                                  None \<Rightarrow> st2
                                | Some other \<Rightarrow>
                                    if other = [] then st2
                                    else sendToUser other messageToSend st2))))))"

definition handleTranslateMessage ::
  "socket \<Rightarrow> env \<Rightarrow> string option \<Rightarrow> utf16 option \<Rightarrow> string option \<Rightarrow> string option
     \<Rightarrow> state \<Rightarrow> state" where
  "handleTranslateMessage sock e uidOpt content sourceLang targetLang st =
     (case translateText (api e) content sourceLang targetLang of
        Inl err \<Rightarrow> sendError sock ''Failed to translate message'' st
      | Inr translation \<Rightarrow>
          (case uidOpt of
             None \<Rightarrow> st
           | Some uid \<Rightarrow>
               sendToUser uid
                 (Translation (translatedText translation) sourceLang targetLang) st))"

text \<open>
  \<^verbatim>\<open>handleTyping\<close> has no \<^verbatim>\<open>try\<close>: an exception of its one query reaches the caller.
\<close>

definition handleTyping ::
  "socket \<Rightarrow> env \<Rightarrow> string option \<Rightarrow> string option \<Rightarrow> bool option \<Rightarrow> state \<Rightarrow> error + state" where
  "handleTyping sock e uidOpt rid typing st =
     (case uidOpt of
        None \<Rightarrow> Inr st
      | Some uid \<Rightarrow>
          (case map_of (users st) uid of
             None \<Rightarrow> Inr st
           | Some user \<Rightarrow>
               if chatRoomId user \<noteq> rid then Inr st
               else
                 (case getChatRoom (dbOk e 0) rid st of
                    Inl err \<Rightarrow> Inl err
                  | Inr None \<Rightarrow> Inr st
                  | Inr (Some chatRoom) \<Rightarrow>
                      (case otherUserIdOf (Some uid) chatRoom of
                         None \<Rightarrow> Inr st
                       | Some other \<Rightarrow>
                           if other = [] then Inr st
                           else Inr (sendToUser other (TypingEv uid typing) st)))))"

text \<open>
  \<^verbatim>\<open>handleLeaveChat\<close>: the whole body is inside \<^verbatim>\<open>try\<close>, and the \<^verbatim>\<open>catch\<close> only logs.
\<close>

definition handleLeaveChat ::
  "socket \<Rightarrow> env \<Rightarrow> string option \<Rightarrow> string option \<Rightarrow> state \<Rightarrow> state" where
  "handleLeaveChat sock e uidOpt rid st =
     (case endChatRoom (dbOk e 0) e rid st of
        Inl err \<Rightarrow> st
      | Inr st1 \<Rightarrow>
          (case getChatRoom (dbOk e 1) rid st1 of
             Inl err \<Rightarrow> st1
           | Inr found \<Rightarrow>
               (let st2 =
                      (case found of
                         None \<Rightarrow> st1
                       | Some chatRoom \<Rightarrow>
                           (case otherUserIdOf uidOpt chatRoom of
                              None \<Rightarrow> st1
                            | Some other \<Rightarrow>
                                if other = [] then st1
                                else sendToUser other
                                       (UserLeft ''The other user has left the chat'') st1))
                in (case uidOpt of
                      None \<Rightarrow> st2
                    | Some uid \<Rightarrow> setChatRoomId uid None st2))))"

text \<open>
  \<^verbatim>\<open>handleDisconnection\<close>: the loop over the registry. Each entry of the closed socket
  leaves its room (when the binding is truthy) and is deleted; \<open>envOf uid\<close> is the outside
  world of the leave of \<open>uid\<close>. The source starts the leave without awaiting it and
  deletes the entry at once; here the leave runs to its end first. A leave changes the
  binding of the leaving entry only, and the closed socket receives nothing, so the
  registry, the tables and the envelopes sent come out the same.
\<close>

fun disconnectLoop ::
  "socket \<Rightarrow> (string \<Rightarrow> env) \<Rightarrow> (string \<times> ChatUser) list \<Rightarrow> state \<Rightarrow> state" where
  "disconnectLoop sock envOf [] st = st"
| "disconnectLoop sock envOf ((uid, user) # rest) st =
     disconnectLoop sock envOf rest
       (if socket user = sock then
          (let st1 = (if truthy (chatRoomId user)
                      then handleLeaveChat sock (envOf uid) (Some uid) (chatRoomId user) st
                      else st)
           in st1\<lparr>users := AList.delete uid (users st1)\<rparr>)
        else st)"

definition handleDisconnection :: "socket \<Rightarrow> (string \<Rightarrow> env) \<Rightarrow> state \<Rightarrow> state" where
  "handleDisconnection sock envOf st = disconnectLoop sock envOf (users st) st"

fun handleMessage :: "socket \<Rightarrow> env \<Rightarrow> ClientMessage \<Rightarrow> state \<Rightarrow> error + state" where
  "handleMessage sock e (Join uid lang) st = handleUserJoin sock e uid lang st"
| "handleMessage sock e (SendMessage uid content rid) st =
     Inr (handleSendMessage sock e uid content rid st)"
| "handleMessage sock e (TranslateMessage uid content srcLang tgtLang) st =
     Inr (handleTranslateMessage sock e uid content srcLang tgtLang st)"
| "handleMessage sock e (Typing uid rid typing) st = handleTyping sock e uid rid typing st"
| "handleMessage sock e (LeaveChat uid rid) st = Inr (handleLeaveChat sock e uid rid st)"
| "handleMessage sock e UnknownType st = Inr (sendError sock ''Unknown message type'' st)"

text \<open>
  The listeners installed by \<^verbatim>\<open>setupWebSocketServer\<close>: a new connection, a frame that
  parses to an envelope, a frame that does not parse, and the close of a socket (its
  \<^verbatim>\<open>readyState\<close> is no longer \<^verbatim>\<open>OPEN\<close> when the listener runs). An exception that escapes
  \<^verbatim>\<open>handleMessage\<close> is answered like a frame that does not parse.
\<close>

datatype event =
    Connection socket
  | Frame socket env ClientMessage
  | BadFrame socket
  | Close socket "string \<Rightarrow> env"

fun step :: "event \<Rightarrow> state \<Rightarrow> state" where
  "step (Connection sock) st = st\<lparr>openSockets := insert sock (openSockets st)\<rparr>"
| "step (Frame sock e m) st =
     (case handleMessage sock e m st of
        Inl err \<Rightarrow> sendError sock ''Invalid message format'' st
      | Inr st' \<Rightarrow> st')"
| "step (BadFrame sock) st = sendError sock ''Invalid message format'' st"
| "step (Close sock envOf) st =
     handleDisconnection sock envOf (st\<lparr>openSockets := openSockets st - {sock}\<rparr>)"

text \<open>
  The states the server can be in: it starts with an empty registry, no socket, nothing
  sent and no room or message stored (the user directory is arbitrary), and handles one
  event after the other.
\<close>

inductive reachable :: "state \<Rightarrow> bool" where
  init: "users st = [] \<Longrightarrow> chatRooms st = [] \<Longrightarrow> messages st = [] \<Longrightarrow>
         openSockets st = {} \<Longrightarrow> outbox st = [] \<Longrightarrow> reachable st"
| step: "reachable st \<Longrightarrow> reachable (step ev st)"

section \<open>The invariant of the room table\<close>

text \<open>
  The primary key of \<^verbatim>\<open>chat_rooms\<close> is unique and no room has its first participant as
  its second participant.
\<close>

definition noSelfMatch :: "ChatRoom list \<Rightarrow> bool" where
  "noSelfMatch rs =
     (distinct (map room_id rs) \<and> (\<forall>r\<in>set rs. user2Id r \<noteq> Some (user1Id r)))"

text \<open>\<open>createdNoLater a b\<close>: both rooms have a creation time, and that of \<open>a\<close> is not later.\<close>

definition createdNoLater :: "ChatRoom \<Rightarrow> ChatRoom \<Rightarrow> bool" where
  "createdNoLater a b =
     (case (room_createdAt a, room_createdAt b) of
        (Some x, Some y) \<Rightarrow> x \<le> y
      | _ \<Rightarrow> False)"

text \<open>
  In the words of the specification of the translation broker, to be compared with
  \<open>translateText\<close>: the external capability errors (the call is rejected, or its reply has
  no readable JSON object as body) or returns a non-success status (a response that is not
  \<^verbatim>\<open>ok\<close>, or a \<^verbatim>\<open>responseStatus\<close> other than 200).
\<close>

fun capabilityErrorsOrNonSuccess :: "http_reply \<Rightarrow> bool" where
  "capabilityErrorsOrNonSuccess FetchFailed = True"
| "capabilityErrorsOrNonSuccess (Reply ok NotJson) = True"
| "capabilityErrorsOrNonSuccess (Reply ok JsonNull) = True"
| "capabilityErrorsOrNonSuccess (Reply ok (JsonObject status rdata)) =
     (\<not> ok \<or> status \<noteq> StatusNum 200)"

section \<open>A run of the server\<close>

text \<open>
  Three directory users and the states of a short run, used to evaluate the handlers on
  concrete inputs: Alice joins on socket 1, Bob joins on socket 2 and is paired with her,
  Carol connects on socket 3, Alice leaves (\<open>aliceLeft\<close>) or Bob's socket closes
  (\<open>bobClosed\<close>); in a second run Alice joins twice, and the store puts her second room
  before the first (\<open>aliceTwice\<close>) or after it (\<open>aliceTwiceInOrder\<close>); in a third run
  Alice's socket closes while the store is down, and Carol joins and is bound into the room
  Alice left behind (\<open>carolPaired\<close>).
\<close>

definition alice :: User where
  "alice = \<lparr>user_id = ''alice'', firstName = Some (codeUnits ''Alice''), lastName = None,
            user_preferredLanguage = ''en-GB''\<rparr>"

definition bob :: User where
  "bob = \<lparr>user_id = ''bob'', firstName = Some (codeUnits ''Bob''), lastName = Some (codeUnits ''B''),
          user_preferredLanguage = ''fr-FR''\<rparr>"

definition carol :: User where
  "carol = \<lparr>user_id = ''carol'', firstName = None, lastName = None,
            user_preferredLanguage = ''de-DE''\<rparr>"

definition world :: "string \<Rightarrow> nat \<Rightarrow> timestamp \<Rightarrow> env" where
  "world newId place t =
     \<lparr>dbOk = (\<lambda>k. True), uuid = newId, slot = place, now = t, api = FetchFailed\<rparr>"

definition start :: state where
  "start = \<lparr>users = [], usersTable = [alice, bob, carol], chatRooms = [], messages = [],
            openSockets = {}, outbox = []\<rparr>"

definition aliceWaiting :: state where
  "aliceWaiting =
     step (Frame 1 (world ''r1'' 0 10) (Join (Some ''alice'') None)) (step (Connection 1) start)"

definition paired :: state where
  "paired =
     step (Connection 3)
       (step (Frame 2 (world ''r2'' 1 20) (Join (Some ''bob'') (Some ''fr-CA'')))
          (step (Connection 2) aliceWaiting))"

definition aliceTwice :: state where
  "aliceTwice = step (Frame 1 (world ''r2'' 0 20) (Join (Some ''alice'') None)) aliceWaiting"

definition aliceTwiceInOrder :: state where
  "aliceTwiceInOrder =
     step (Frame 1 (world ''r2'' 1 20) (Join (Some ''alice'') None)) aliceWaiting"

definition bobClosed :: state where
  "bobClosed = step (Close 2 (\<lambda>uid. world [] 0 30)) paired"

definition aliceDropped :: state where
  "aliceDropped =
     step (Close 1 (\<lambda>uid. (world [] 0 15)\<lparr>dbOk := (\<lambda>k. False)\<rparr>)) aliceWaiting"

definition carolPaired :: state where
  "carolPaired =
     step (Frame 3 (world ''r2'' 1 20) (Join (Some ''carol'') None))
       (step (Connection 3) aliceDropped)"


section \<open>Frame and invariant lemmas\<close>


lemma sendError_fields [simp]:
  "users (sendError sock err st) = users st"
  "usersTable (sendError sock err st) = usersTable st"
  "chatRooms (sendError sock err st) = chatRooms st"
  "messages (sendError sock err st) = messages st"
  "openSockets (sendError sock err st) = openSockets st"
  by (simp_all add: sendError_def)

lemma sendToUser_fields [simp]:
  "users (sendToUser uid msg st) = users st"
  "usersTable (sendToUser uid msg st) = usersTable st"
  "chatRooms (sendToUser uid msg st) = chatRooms st"
  "messages (sendToUser uid msg st) = messages st"
  "openSockets (sendToUser uid msg st) = openSockets st"
  by (simp_all add: sendToUser_def split: option.splits)

lemma setChatRoomId_fields [simp]:
  "users (setChatRoomId uid v st) = AList.map_entry uid (\<lambda>u. u\<lparr>chatRoomId := v\<rparr>) (users st)"
  "usersTable (setChatRoomId uid v st) = usersTable st"
  "chatRooms (setChatRoomId uid v st) = chatRooms st"
  "messages (setChatRoomId uid v st) = messages st"
  "openSockets (setChatRoomId uid v st) = openSockets st"
  "outbox (setChatRoomId uid v st) = outbox st"
  by (simp_all add: setChatRoomId_def)

lemma createChatRoom_frame:
  assumes "createChatRoom ok e u1 u2 st = Inr (r, st')"
  shows "users st' = users st \<and> usersTable st' = usersTable st \<and> messages st' = messages st
         \<and> openSockets st' = openSockets st \<and> outbox st' = outbox st"
  using assms by (auto simp: createChatRoom_def Let_def split: if_splits)

lemma findOrCreateChatRoom_frame:
  assumes "findOrCreateChatRoom e k uid st = Inr (r, st')"
  shows "users st' = users st \<and> usersTable st' = usersTable st \<and> messages st' = messages st
         \<and> openSockets st' = openSockets st \<and> outbox st' = outbox st"
  using assms
  by (auto simp: findOrCreateChatRoom_def Let_def split: if_splits option.splits list.splits
           dest: createChatRoom_frame)

lemma map_fst_map_entry [simp]: "map fst (AList.map_entry k f xs) = map fst xs"
  by (induction xs) auto

lemma socket_map_entry [simp]:
  "map_option socket (map_of (AList.map_entry k (\<lambda>u. u\<lparr>chatRoomId := v\<rparr>) xs) k') = map_option socket (map_of xs k')"
  by (induction xs) auto




lemma find_SomeD: "find P xs = Some x \<Longrightarrow> x \<in> set xs \<and> P x"
  by (induction xs) (auto split: if_splits)

lemma distinct_same_id:
  "distinct (map room_id rs) \<Longrightarrow> a \<in> set rs \<Longrightarrow> b \<in> set rs \<Longrightarrow> room_id a = room_id b \<Longrightarrow> a = b"
  by (induction rs) (auto simp: image_iff)

lemma map_room_id_same:
  "(\<And>r. room_id (f r) = room_id r) \<Longrightarrow> map room_id (map f rs) = map room_id rs"
  by (induction rs) auto

lemma distinct_insert_at:
  assumes "distinct (map f xs)" and "f x \<notin> f ` set xs"
  shows "distinct (map f (take n xs @ x # drop n xs))"
proof -
  have "distinct (map f (take n xs) @ map f (drop n xs))"
    using assms(1) by (metis append_take_drop_id map_append)
  moreover have "f x \<notin> f ` set (take n xs)" "f x \<notin> f ` set (drop n xs)"
    using assms(2) by (auto dest: in_set_takeD in_set_dropD)
  ultimately show ?thesis by auto
qed

lemma createChatRoom_noSelfMatch:
  assumes "noSelfMatch (chatRooms st)" and "createChatRoom ok e u1 None st = Inr (r, st')"
  shows "noSelfMatch (chatRooms st') \<and> user2Id r = None \<and> user1Id r = u1"
proof -
  let ?new = "\<lparr>room_id = uuid e, user1Id = u1, user2Id = None, isActive = True,
                room_createdAt = Some (now e), endedAt = None\<rparr>"
  from assms(2) have fresh: "room_id ?new \<notin> room_id ` set (chatRooms st)"
    and r: "r = ?new"
    and st': "chatRooms st' = take (slot e) (chatRooms st) @ ?new # drop (slot e) (chatRooms st)"
    by (auto simp: createChatRoom_def Let_def split: if_splits)
  have "distinct (map room_id (chatRooms st'))"
    unfolding st' using assms(1) fresh
    by (intro distinct_insert_at) (simp_all add: noSelfMatch_def)
  moreover have "\<forall>x\<in>set (chatRooms st'). user2Id x \<noteq> Some (user1Id x)"
    using assms(1) unfolding st' noSelfMatch_def
    by (auto dest: in_set_takeD in_set_dropD)
  ultimately show ?thesis using r by (simp add: noSelfMatch_def)
qed

lemma joinRoom_noSelfMatch:
  assumes inv: "noSelfMatch rs" and ex: "ex \<in> set rs" and ne: "user1Id ex \<noteq> uid"
  defines "rs' \<equiv> map (\<lambda>r. if room_id r = room_id ex then r\<lparr>user2Id := Some uid\<rparr> else r) rs"
  shows "noSelfMatch rs'" and "filter (\<lambda>r. room_id r = room_id ex) rs' = [ex\<lparr>user2Id := Some uid\<rparr>]"
proof -
  have ids: "map room_id rs' = map room_id rs"
    unfolding rs'_def by (rule map_room_id_same) simp
  have d: "distinct (map room_id rs)" using inv by (simp add: noSelfMatch_def)
  have same: "\<And>r. r \<in> set rs \<Longrightarrow> room_id r = room_id ex \<Longrightarrow> r = ex"
    using distinct_same_id [OF d _ ex] by blast
  have "user2Id x \<noteq> Some (user1Id x)" if "x \<in> set rs'" for x
  proof -
    from that obtain r where r: "r \<in> set rs"
      and x: "x = (if room_id r = room_id ex then r\<lparr>user2Id := Some uid\<rparr> else r)"
      unfolding rs'_def by auto
    show ?thesis
    proof (cases "room_id r = room_id ex")
      case True
      then have "r = ex" using same r by simp
      then show ?thesis using x ne by simp
    next
      case False
      then show ?thesis using x r inv by (simp add: noSelfMatch_def)
    qed
  qed
  then have "\<forall>x\<in>set rs'. user2Id x \<noteq> Some (user1Id x)" by blast
  moreover have "distinct (map room_id rs')" unfolding ids by (rule d)
  ultimately show "noSelfMatch rs'" unfolding noSelfMatch_def by blast
  show "filter (\<lambda>r. room_id r = room_id ex) rs' = [ex\<lparr>user2Id := Some uid\<rparr>]"
    using d ex unfolding rs'_def
  proof (induction rs)
    case Nil then show ?case by simp
  next
    case (Cons a rs)
    show ?case
    proof (cases "a = ex")
      case True
      have "\<forall>r\<in>set rs. room_id r \<noteq> room_id ex" using Cons.prems True by (auto simp: image_iff)
      then have "filter (\<lambda>r. room_id r = room_id ex)
          (map (\<lambda>r. if room_id r = room_id ex then r\<lparr>user2Id := Some uid\<rparr> else r) rs) = []"
        by (auto simp: filter_empty_conv)
      then show ?thesis using True by simp
    next
      case False
      then have "ex \<in> set rs" using Cons.prems by simp
      moreover have "room_id a \<noteq> room_id ex" using Cons.prems \<open>ex \<in> set rs\<close> by (auto simp: image_iff)
      ultimately show ?thesis using Cons by simp
    qed
  qed
qed

lemma findOrCreateChatRoom_noSelfMatch:
  assumes inv: "noSelfMatch (chatRooms st)" and res: "findOrCreateChatRoom e k uid st = Inr (r, st')"
  shows "noSelfMatch (chatRooms st') \<and> user2Id r \<noteq> Some (user1Id r)"
proof (cases "find (waitingFor uid) (chatRooms st)")
  case None
  with res have "createChatRoom (dbOk e (k + 1)) e uid None st = Inr (r, st')"
    by (simp add: findOrCreateChatRoom_def split: if_splits)
  from createChatRoom_noSelfMatch [OF inv this] show ?thesis by simp
next
  case (Some ex)
  then have ex: "ex \<in> set (chatRooms st)" and ne: "user1Id ex \<noteq> uid"
    by (auto dest: find_SomeD simp: waitingFor_def)
  note jr = joinRoom_noSelfMatch [OF inv ex ne]
  from res Some have "r = ex\<lparr>user2Id := Some uid\<rparr>"
    and "chatRooms st' = map (\<lambda>r. if room_id r = room_id ex then r\<lparr>user2Id := Some uid\<rparr> else r) (chatRooms st)"
    by (auto simp: findOrCreateChatRoom_def Let_def jr(2) split: if_splits)
  then show ?thesis using jr(1) ne by auto
qed

lemma endChatRoom_noSelfMatch:
  assumes "noSelfMatch (chatRooms st)" and "endChatRoom ok e i st = Inr st'"
  shows "noSelfMatch (chatRooms st')"
proof -
  let ?f = "\<lambda>r. if Some (room_id r) = i then r\<lparr>isActive := False, endedAt := Some (now e)\<rparr> else r"
  from assms(2) have st': "chatRooms st' = map ?f (chatRooms st)"
    by (auto simp: endChatRoom_def split: if_splits)
  have ids: "map room_id (map ?f (chatRooms st)) = map room_id (chatRooms st)"
    by (rule map_room_id_same) simp
  have "distinct (map room_id (map ?f (chatRooms st)))"
    unfolding ids using assms(1) by (simp add: noSelfMatch_def)
  moreover have "\<forall>x\<in>set (map ?f (chatRooms st)). user2Id x \<noteq> Some (user1Id x)"
    using assms(1) by (auto simp: noSelfMatch_def)
  ultimately show ?thesis unfolding st' noSelfMatch_def by blast
qed


lemma matchUsers_noSelfMatch:
  assumes "noSelfMatch (chatRooms st)"
  shows "noSelfMatch (chatRooms (matchUsers e uid st))"
proof (cases "map_of (users st) uid")
  case None
  then show ?thesis using assms by (simp add: matchUsers_def)
next
  case (Some user)
  show ?thesis
  proof (cases "findOrCreateChatRoom e 1 uid st")
    case (Inl err)
    then show ?thesis using assms Some by (simp add: matchUsers_def)
  next
    case (Inr p)
    obtain r st1 where p: "p = (r, st1)" by (cases p)
    from findOrCreateChatRoom_noSelfMatch [OF assms Inr [unfolded p]]
    have inv1: "noSelfMatch (chatRooms st1)" by simp
    have "chatRooms (matchUsers e uid st) = chatRooms st1"
      using Some Inr p
      by (simp add: matchUsers_def Let_def getUser_def split: option.splits sum.splits)
    then show ?thesis using inv1 by simp
  qed
qed

lemma handleUserJoin_noSelfMatch:
  assumes "noSelfMatch (chatRooms st)" and "handleUserJoin sock e uidOpt lang st = Inr st'"
  shows "noSelfMatch (chatRooms st')"
  using assms matchUsers_noSelfMatch
  by (auto simp: handleUserJoin_def Let_def split: option.splits if_splits sum.splits)

lemma createMessage_frame:
  assumes "createMessage ok e rid sender content lang st = Inr (m, st')"
  shows "users st' = users st \<and> usersTable st' = usersTable st \<and> chatRooms st' = chatRooms st
         \<and> openSockets st' = openSockets st \<and> outbox st' = outbox st
         \<and> messages st' = messages st @ [m]"
  using assms
  by (auto simp: createMessage_def Let_def split: if_splits option.splits)

lemma handleSendMessage_chatRooms:
  "chatRooms (handleSendMessage sock e uidOpt content rid st) = chatRooms st"
  by (auto simp: handleSendMessage_def Let_def getChatRoom_def
           split: option.splits sum.splits if_splits dest!: createMessage_frame)


lemma handleTranslateMessage_chatRooms:
  "chatRooms (handleTranslateMessage sock e uidOpt content srcL tgtL st) = chatRooms st"
  by (auto simp: handleTranslateMessage_def split: option.splits sum.splits)

lemma handleTyping_chatRooms:
  "handleTyping sock e uidOpt rid typing st = Inr st' \<Longrightarrow> chatRooms st' = chatRooms st"
  by (auto simp: handleTyping_def split: option.splits sum.splits if_splits)

lemma endChatRoom_frame:
  assumes "endChatRoom ok e i st = Inr st'"
  shows "users st' = users st \<and> usersTable st' = usersTable st \<and> messages st' = messages st
         \<and> openSockets st' = openSockets st \<and> outbox st' = outbox st"
  using assms by (auto simp: endChatRoom_def split: if_splits)

lemma handleLeaveChat_noSelfMatch:
  assumes "noSelfMatch (chatRooms st)"
  shows "noSelfMatch (chatRooms (handleLeaveChat sock e uidOpt rid st))"
proof (cases "endChatRoom (dbOk e 0) e rid st")
  case (Inl err)
  then show ?thesis using assms by (simp add: handleLeaveChat_def)
next
  case (Inr st1)
  have "chatRooms (handleLeaveChat sock e uidOpt rid st) = chatRooms st1"
    using Inr by (simp add: handleLeaveChat_def Let_def split: option.splits sum.splits)
  then show ?thesis using endChatRoom_noSelfMatch [OF assms Inr] by simp
qed

lemma disconnectLoop_noSelfMatch:
  "noSelfMatch (chatRooms st) \<Longrightarrow> noSelfMatch (chatRooms (disconnectLoop sock envOf entries st))"
proof (induction entries arbitrary: st)
  case Nil
  then show ?case by simp
next
  case (Cons p entries)
  obtain uid user where p: "p = (uid, user)" by (cases p)
  show ?case unfolding p disconnectLoop.simps
    by (rule Cons.IH) (simp add: Cons.prems handleLeaveChat_noSelfMatch Let_def)
qed

lemma step_noSelfMatch:
  assumes "noSelfMatch (chatRooms st)"
  shows "noSelfMatch (chatRooms (step ev st))"
proof (cases ev)
  case (Connection sock)
  then show ?thesis using assms by simp
next
  case (Frame sock e m)
  show ?thesis
  proof (cases "handleMessage sock e m st")
    case (Inl err)
    then show ?thesis using assms Frame by simp
  next
    case (Inr st')
    have "noSelfMatch (chatRooms st')"
      using Inr assms
      by (cases m)
         (auto simp: handleSendMessage_chatRooms handleTranslateMessage_chatRooms
               dest: handleUserJoin_noSelfMatch handleTyping_chatRooms
               intro: handleLeaveChat_noSelfMatch)
    then show ?thesis using Inr Frame by simp
  qed
next
  case (BadFrame sock)
  then show ?thesis using assms by simp
next
  case (Close sock envOf)
  then show ?thesis using assms by (simp add: handleDisconnection_def disconnectLoop_noSelfMatch)
qed

lemma reachable_noSelfMatch: "reachable st \<Longrightarrow> noSelfMatch (chatRooms st)"
proof (induction rule: reachable.induct)
  case (init st)
  then show ?case by (simp add: noSelfMatch_def)
next
  case (step st ev)
  then show ?case by (simp add: step_noSelfMatch)
qed


section \<open>Evaluation of the run\<close>

lemmas model_defs = getUser_def createChatRoom_def waitingFor_def findOrCreateChatRoom_def
  getChatRoom_def endChatRoom_def createMessage_def orElse_def isSpace_def trim_def displayName_def
  sendToUser_def sendError_def setChatRoomId_def otherUserIdOf_def matchUsers_def handleUserJoin_def
  handleSendMessage_def handleTranslateMessage_def handleTyping_def handleLeaveChat_def
  handleDisconnection_def alice_def bob_def carol_def world_def start_def Let_def
  codeUnits_def

lemma aliceWaiting_eval:
  "aliceWaiting =
     \<lparr>users = [(''alice'', \<lparr>userId = ''alice'', socket = 1, chatRoomId = Some ''r1'',
                              preferredLanguage = ''en-GB''\<rparr>)],
      usersTable = [alice, bob, carol],
      chatRooms = [\<lparr>room_id = ''r1'', user1Id = ''alice'', user2Id = None, isActive = True,
                     room_createdAt = Some 10, endedAt = None\<rparr>],
      messages = [], openSockets = {1},
      outbox = [(1, Waiting ''Waiting for another user to join...'')]\<rparr>"
  by (simp add: aliceWaiting_def model_defs)

lemma paired_eval:
  "paired =
     \<lparr>users = [(''alice'', \<lparr>userId = ''alice'', socket = 1, chatRoomId = Some ''r1'',
                              preferredLanguage = ''en-GB''\<rparr>),
               (''bob'', \<lparr>userId = ''bob'', socket = 2, chatRoomId = Some ''r1'',
                            preferredLanguage = ''fr-CA''\<rparr>)],
      usersTable = [alice, bob, carol],
      chatRooms = [\<lparr>room_id = ''r1'', user1Id = ''alice'', user2Id = Some ''bob'', isActive = True,
                     room_createdAt = Some 10, endedAt = None\<rparr>],
      messages = [], openSockets = {1, 2, 3},
      outbox = [(1, Waiting ''Waiting for another user to join...''),
                (2, UserJoined ''r1'' ''alice'' (codeUnits ''Alice'') ''en-GB''),
                (1, UserJoined ''r1'' ''bob'' (codeUnits ''Bob B'') ''fr-CA'')]\<rparr>"
  unfolding paired_def aliceWaiting_eval
  by (simp add: model_defs insert_commute)

lemma aliceTwice_eval:
  "aliceTwice =
     \<lparr>users = [(''alice'', \<lparr>userId = ''alice'', socket = 1, chatRoomId = Some ''r2'',
                              preferredLanguage = ''en-GB''\<rparr>)],
      usersTable = [alice, bob, carol],
      chatRooms = [\<lparr>room_id = ''r2'', user1Id = ''alice'', user2Id = None, isActive = True,
                     room_createdAt = Some 20, endedAt = None\<rparr>,
                   \<lparr>room_id = ''r1'', user1Id = ''alice'', user2Id = None, isActive = True,
                     room_createdAt = Some 10, endedAt = None\<rparr>],
      messages = [], openSockets = {1},
      outbox = [(1, Waiting ''Waiting for another user to join...''),
                (1, Waiting ''Waiting for another user to join...'')]\<rparr>"
  unfolding aliceTwice_def aliceWaiting_eval
  by (simp add: model_defs)

lemma aliceTwiceInOrder_eval:
  "aliceTwiceInOrder =
     \<lparr>users = [(''alice'', \<lparr>userId = ''alice'', socket = 1, chatRoomId = Some ''r2'',
                              preferredLanguage = ''en-GB''\<rparr>)],
      usersTable = [alice, bob, carol],
      chatRooms = [\<lparr>room_id = ''r1'', user1Id = ''alice'', user2Id = None, isActive = True,
                     room_createdAt = Some 10, endedAt = None\<rparr>,
                   \<lparr>room_id = ''r2'', user1Id = ''alice'', user2Id = None, isActive = True,
                     room_createdAt = Some 20, endedAt = None\<rparr>],
      messages = [], openSockets = {1},
      outbox = [(1, Waiting ''Waiting for another user to join...''),
                (1, Waiting ''Waiting for another user to join...'')]\<rparr>"
  unfolding aliceTwiceInOrder_def aliceWaiting_eval
  by (simp add: model_defs)


lemma reachable_aliceWaiting: "reachable aliceWaiting"
  unfolding aliceWaiting_def
  by (intro reachable.step reachable.init) (simp_all add: start_def)

lemma reachable_paired: "reachable paired"
  unfolding paired_def by (intro reachable.step reachable_aliceWaiting)

lemma reachable_aliceTwice: "reachable aliceTwice"
  unfolding aliceTwice_def by (intro reachable.step reachable_aliceWaiting)


section \<open>Self-match is forbidden\<close>

text \<open>
  C1. In every state the server can reach, no room has its first participant as its second
  participant, and whatever \<^verbatim>\<open>findOrCreateChatRoom\<close> returns for a user is not a room in
  which that user is both participants; the table after the call has no such room either.
\<close>

theorem self_match_forbidden:
  assumes "reachable st"
  shows "(\<forall>r\<in>set (chatRooms st). user2Id r \<noteq> Some (user1Id r)) \<and>
         (\<forall>e k uid r st'. findOrCreateChatRoom e k uid st = Inr (r, st') \<longrightarrow>
            \<not> (user1Id r = uid \<and> user2Id r = Some uid) \<and>
            (\<forall>x\<in>set (chatRooms st'). user2Id x \<noteq> Some (user1Id x)))"
proof -
  have inv: "noSelfMatch (chatRooms st)" using assms by (rule reachable_noSelfMatch)
  have "\<not> (user1Id r = uid \<and> user2Id r = Some uid) \<and>
        (\<forall>x\<in>set (chatRooms st'). user2Id x \<noteq> Some (user1Id x))"
    if "findOrCreateChatRoom e k uid st = Inr (r, st')" for e k uid r st'
    using findOrCreateChatRoom_noSelfMatch [OF inv that] by (auto simp: noSelfMatch_def)
  then show ?thesis using inv by (simp add: noSelfMatch_def)
qed

theorem self_match_forbidden_witness:
  "reachable aliceTwice \<and>
   list_all (\<lambda>r. user2Id r \<noteq> Some (user1Id r)) (chatRooms aliceTwice) \<and>
   length (chatRooms aliceTwice) = 2"
proof -
  have "\<forall>r\<in>set (chatRooms aliceTwice). user2Id r \<noteq> Some (user1Id r)"
    using self_match_forbidden [OF reachable_aliceTwice] by blast
  then have "list_all (\<lambda>r. user2Id r \<noteq> Some (user1Id r)) (chatRooms aliceTwice)"
    by (simp only: list_all_iff)
  moreover have "length (chatRooms aliceTwice) = 2"
    by (simp add: aliceTwice_eval)
  ultimately show ?thesis using reachable_aliceTwice by blast
qed


section \<open>Which waiting room is joined\<close>

lemma find_first:
  "\<forall>r\<in>set pre. \<not> P r \<Longrightarrow> P x \<Longrightarrow> find P (pre @ x # post) = Some x"
  by (induction pre) auto

lemma map_other_ids:
  "rid \<notin> room_id ` set xs \<Longrightarrow> map (\<lambda>r. if room_id r = rid then f r else r) xs = xs"
  by (induction xs) auto

lemma filter_other_ids:
  "rid \<notin> room_id ` set xs \<Longrightarrow> filter (\<lambda>r. room_id r = rid) xs = []"
  by (induction xs) auto

text \<open>
  C2, as the code has it. The search has no \<^verbatim>\<open>ORDER BY\<close>: the joining user is bound into
  the eligible waiting room that comes first in the order in which the store returns the
  rows, whatever the creation times; the rows before it are not eligible, the rows after it
  are not looked at. When the store returns the rows in the order of their creation, every
  room after the chosen one was created no earlier.
\<close>

theorem first_waiting_room_in_store_order:
  assumes rooms: "chatRooms st = pre @ ra # post"
      and wait: "waitingFor uid ra"
      and before: "\<forall>r\<in>set pre. \<not> waitingFor uid r"
      and key: "room_id ra \<notin> room_id ` set pre" "room_id ra \<notin> room_id ` set post"
      and ok: "dbOk e k" "dbOk e (k + 1)"
      and known: "uid \<in> user_id ` set (usersTable st)"
  shows "findOrCreateChatRoom e k uid st =
           Inr (ra\<lparr>user2Id := Some uid\<rparr>,
                st\<lparr>chatRooms := pre @ ra\<lparr>user2Id := Some uid\<rparr> # post\<rparr>)
         \<and> (sorted_wrt createdNoLater (chatRooms st) \<longrightarrow>
              (\<forall>r\<in>set post. createdNoLater ra r))"
proof -
  let ?f = "\<lambda>r. if room_id r = room_id ra then r\<lparr>user2Id := Some uid\<rparr> else r"
  have found: "find (waitingFor uid) (chatRooms st) = Some ra"
    unfolding rooms using before wait by (rule find_first)
  have upd: "map ?f (chatRooms st) = pre @ ra\<lparr>user2Id := Some uid\<rparr> # post"
    unfolding rooms using key by (simp add: map_other_ids)
  have ret: "filter (\<lambda>r. room_id r = room_id ra) (map ?f (chatRooms st)) = [ra\<lparr>user2Id := Some uid\<rparr>]"
    unfolding upd using key by (simp add: filter_other_ids)
  have "findOrCreateChatRoom e k uid st =
           Inr (ra\<lparr>user2Id := Some uid\<rparr>,
                st\<lparr>chatRooms := pre @ ra\<lparr>user2Id := Some uid\<rparr> # post\<rparr>)"
    using ok known by (simp add: findOrCreateChatRoom_def found Let_def ret) (simp add: upd)
  moreover have "\<forall>r\<in>set post. createdNoLater ra r"
    if "sorted_wrt createdNoLater (chatRooms st)"
    using that unfolding rooms by (simp add: sorted_wrt_append)
  ultimately show ?thesis by blast
qed

theorem first_waiting_room_in_store_order_witness:
  "findOrCreateChatRoom (world ''r3'' 2 30) 1 ''carol'' aliceTwiceInOrder =
     Inr (\<lparr>room_id = ''r1'', user1Id = ''alice'', user2Id = Some ''carol'', isActive = True,
            room_createdAt = Some 10, endedAt = None\<rparr>,
          aliceTwiceInOrder\<lparr>chatRooms :=
            [\<lparr>room_id = ''r1'', user1Id = ''alice'', user2Id = Some ''carol'', isActive = True,
               room_createdAt = Some 10, endedAt = None\<rparr>,
             \<lparr>room_id = ''r2'', user1Id = ''alice'', user2Id = None, isActive = True,
               room_createdAt = Some 20, endedAt = None\<rparr>]\<rparr>) \<and>
   sorted_wrt createdNoLater (chatRooms aliceTwiceInOrder) \<and>
   list_all (createdNoLater
               \<lparr>room_id = ''r1'', user1Id = ''alice'', user2Id = None, isActive = True,
                 room_createdAt = Some 10, endedAt = None\<rparr>)
     [\<lparr>room_id = ''r2'', user1Id = ''alice'', user2Id = None, isActive = True,
        room_createdAt = Some 20, endedAt = None\<rparr>]"
proof -
  have rooms: "chatRooms aliceTwiceInOrder =
      [] @ \<lparr>room_id = ''r1'', user1Id = ''alice'', user2Id = None, isActive = True,
             room_createdAt = Some 10, endedAt = None\<rparr>
         # [\<lparr>room_id = ''r2'', user1Id = ''alice'', user2Id = None, isActive = True,
              room_createdAt = Some 20, endedAt = None\<rparr>]"
    by (simp add: aliceTwiceInOrder_eval)
  have sorted: "sorted_wrt createdNoLater (chatRooms aliceTwiceInOrder)"
    by (simp add: aliceTwiceInOrder_eval createdNoLater_def)
  have known: "''carol'' \<in> user_id ` set (usersTable aliceTwiceInOrder)"
    by (simp add: aliceTwiceInOrder_eval alice_def bob_def carol_def)
  have "findOrCreateChatRoom (world ''r3'' 2 30) 1 ''carol'' aliceTwiceInOrder =
          Inr (\<lparr>room_id = ''r1'', user1Id = ''alice'', user2Id = None, isActive = True,
                 room_createdAt = Some 10, endedAt = None\<rparr>\<lparr>user2Id := Some ''carol''\<rparr>,
               aliceTwiceInOrder\<lparr>chatRooms :=
                 [] @ \<lparr>room_id = ''r1'', user1Id = ''alice'', user2Id = None, isActive = True,
                        room_createdAt = Some 10, endedAt = None\<rparr>\<lparr>user2Id := Some ''carol''\<rparr>
                    # [\<lparr>room_id = ''r2'', user1Id = ''alice'', user2Id = None, isActive = True,
                         room_createdAt = Some 20, endedAt = None\<rparr>]\<rparr>)
        \<and> (sorted_wrt createdNoLater (chatRooms aliceTwiceInOrder) \<longrightarrow>
              (\<forall>r\<in>set [\<lparr>room_id = ''r2'', user1Id = ''alice'', user2Id = None, isActive = True,
                          room_createdAt = Some 20, endedAt = None\<rparr>].
                 createdNoLater
                   \<lparr>room_id = ''r1'', user1Id = ''alice'', user2Id = None, isActive = True,
                     room_createdAt = Some 10, endedAt = None\<rparr> r))"
    by (rule first_waiting_room_in_store_order [OF rooms _ _ _ _ _ _ known])
       (simp_all add: waitingFor_def world_def)
  then show ?thesis using sorted by (simp add: list_all_iff)
qed

text \<open>
  C2 as stated fails: after Alice has joined twice, her room created at time 20 precedes
  her room created at time 10 in the store's order; both are eligible for Carol, and Carol
  is bound into the later one.
\<close>

theorem fifo_counterexample:
  "reachable aliceTwice \<and>
   chatRooms aliceTwice =
     [\<lparr>room_id = ''r2'', user1Id = ''alice'', user2Id = None, isActive = True,
        room_createdAt = Some 20, endedAt = None\<rparr>,
      \<lparr>room_id = ''r1'', user1Id = ''alice'', user2Id = None, isActive = True,
        room_createdAt = Some 10, endedAt = None\<rparr>] \<and>
   list_all (waitingFor ''carol'') (chatRooms aliceTwice) \<and>
   findOrCreateChatRoom (world ''r3'' 2 30) 1 ''carol'' aliceTwice =
     Inr (\<lparr>room_id = ''r2'', user1Id = ''alice'', user2Id = Some ''carol'', isActive = True,
            room_createdAt = Some 20, endedAt = None\<rparr>,
          aliceTwice\<lparr>chatRooms :=
            [\<lparr>room_id = ''r2'', user1Id = ''alice'', user2Id = Some ''carol'', isActive = True,
               room_createdAt = Some 20, endedAt = None\<rparr>,
             \<lparr>room_id = ''r1'', user1Id = ''alice'', user2Id = None, isActive = True,
               room_createdAt = Some 10, endedAt = None\<rparr>]\<rparr>)"
proof -
  have "findOrCreateChatRoom (world ''r3'' 2 30) 1 ''carol'' aliceTwice =
     Inr (\<lparr>room_id = ''r2'', user1Id = ''alice'', user2Id = Some ''carol'', isActive = True,
            room_createdAt = Some 20, endedAt = None\<rparr>,
          aliceTwice\<lparr>chatRooms :=
            [\<lparr>room_id = ''r2'', user1Id = ''alice'', user2Id = Some ''carol'', isActive = True,
               room_createdAt = Some 20, endedAt = None\<rparr>,
             \<lparr>room_id = ''r1'', user1Id = ''alice'', user2Id = None, isActive = True,
               room_createdAt = Some 10, endedAt = None\<rparr>]\<rparr>)"
    unfolding aliceTwice_eval by (simp add: model_defs)
  moreover have "chatRooms aliceTwice =
     [\<lparr>room_id = ''r2'', user1Id = ''alice'', user2Id = None, isActive = True,
        room_createdAt = Some 20, endedAt = None\<rparr>,
      \<lparr>room_id = ''r1'', user1Id = ''alice'', user2Id = None, isActive = True,
        room_createdAt = Some 10, endedAt = None\<rparr>]"
    by (simp add: aliceTwice_eval)
  moreover have "list_all (waitingFor ''carol'') (chatRooms aliceTwice)"
    by (simp add: aliceTwice_eval waitingFor_def)
  ultimately show ?thesis using reachable_aliceTwice by blast
qed

section \<open>Leaving a room that has ended\<close>






section \<open>Operations on a room of others\<close>

text \<open>
  C6, as the code has it. When the sender is not registered or is not bound to the room
  named in the envelope, a message is answered with the error \<^verbatim>\<open>Invalid chat room\<close> on the
  sending socket and changes nothing else, and a typing signal is dropped: nothing is
  written to any socket and the state is unchanged.
\<close>

theorem foreign_session_rejected:
  assumes foreign: "\<forall>uid u. uidOpt = Some uid \<longrightarrow> map_of (users st) uid = Some u
                      \<longrightarrow> chatRoomId u \<noteq> rid"
      and opened: "sock \<in> openSockets st"
  shows "handleSendMessage sock e uidOpt content rid st =
           st\<lparr>outbox := outbox st @ [(sock, ErrorEv ''Invalid chat room'')]\<rparr>
         \<and> handleTyping sock e uidOpt rid typing st = Inr st"
  using assms
  by (auto simp: handleSendMessage_def handleTyping_def sendError_def split: option.splits)

theorem foreign_session_rejected_witness:
  "handleSendMessage 3 (world ''m1'' 0 30) (Some ''carol'') (Some ''hi'') (Some ''r1'') paired =
     paired\<lparr>outbox := outbox paired @ [(3, ErrorEv ''Invalid chat room'')]\<rparr>
   \<and> handleTyping 3 (world ''m1'' 0 30) (Some ''carol'') (Some ''r1'') (Some True) paired
       = Inr paired"
  using foreign_session_rejected [of "Some ''carol''" paired "Some ''r1''" 3 "world ''m1'' 0 30"
      "Some ''hi''" "Some True"]
  by (simp add: paired_eval)

text \<open>
  C6 as stated fails for typing: Carol, connected on the open socket 3 and not a member of
  room r1, sends a typing signal for r1; the state after the frame is the state before it,
  so no error was written to her socket.
\<close>

theorem typing_foreign_session_counterexample:
  "reachable paired \<and> 3 \<in> openSockets paired \<and> map_of (users paired) ''carol'' = None \<and>
   step (Frame 3 (world ''m1'' 0 30) (Typing (Some ''carol'') (Some ''r1'') (Some True))) paired
     = paired"
proof -
  have "step (Frame 3 (world ''m1'' 0 30) (Typing (Some ''carol'') (Some ''r1'') (Some True))) paired
     = paired"
    unfolding paired_eval by (simp add: model_defs)
  moreover have "3 \<in> openSockets paired \<and> map_of (users paired) ''carol'' = None"
    by (simp add: paired_eval)
  ultimately show ?thesis using reachable_paired by blast
qed

section \<open>Failure of the message store\<close>

text \<open>
  C7. When the sender is bound to the room and storing the message fails, the only effect
  is the error \<^verbatim>\<open>Failed to send message\<close> on the sending socket: no envelope reaches a
  participant, and the registry, the rooms and the message log are unchanged.
\<close>

theorem persistence_failure_no_delivery:
  assumes sender: "map_of (users st) uid = Some sender" "chatRoomId sender = rid"
      and failed: "createMessage (dbOk e 0) e rid uid content (preferredLanguage sender) st
                     = Inl err"
      and opened: "sock \<in> openSockets st"
  shows "handleSendMessage sock e (Some uid) content rid st =
           st\<lparr>outbox := outbox st @ [(sock, ErrorEv ''Failed to send message'')]\<rparr>"
  using assms by (simp add: handleSendMessage_def sendError_def)

theorem persistence_failure_no_delivery_witness:
  "createMessage False (world ''m1'' 0 30) (Some ''r1'') ''alice'' (Some ''hello'') ''en-GB'' paired
     = Inl DbError \<and>
   handleSendMessage 1 ((world ''m1'' 0 30)\<lparr>dbOk := (\<lambda>k. False)\<rparr>)
       (Some ''alice'') (Some ''hello'') (Some ''r1'') paired =
     paired\<lparr>outbox := outbox paired @ [(1, ErrorEv ''Failed to send message'')]\<rparr>"
  using persistence_failure_no_delivery
    [of paired "''alice''"
        "\<lparr>userId = ''alice'', socket = 1, chatRoomId = Some ''r1'', preferredLanguage = ''en-GB''\<rparr>"
        "Some ''r1''" "(world ''m1'' 0 30)\<lparr>dbOk := (\<lambda>k. False)\<rparr>" "Some ''hello''" DbError 1]
  by (simp add: paired_eval world_def createMessage_def)

section \<open>Registering again\<close>




section \<open>A join without a known user\<close>

text \<open>
  C10. A join without a user id, with an empty one, or with one the directory does not
  know is answered with an error on the joining socket, and nothing else changes: no
  registry entry and no room is created.
\<close>

theorem join_of_unknown_user_rejected:
  assumes unknown: "uidOpt = None \<or> uidOpt = Some [] \<or>
                    (\<exists>uid. uidOpt = Some uid \<and> getUser (dbOk e 0) uid st = Inr None)"
      and opened: "sock \<in> openSockets st"
  shows "handleUserJoin sock e uidOpt lang st =
           Inr (st\<lparr>outbox := outbox st @
                  [(sock, ErrorEv (if truthy uidOpt then ''User not found''
                                   else ''User ID is required''))]\<rparr>)"
  using assms
  by (auto simp: handleUserJoin_def sendError_def split: option.splits)

theorem join_of_unknown_user_rejected_witness:
  "handleUserJoin 3 (world ''r2'' 1 40) (Some ''dave'') None paired =
     Inr (paired\<lparr>outbox := outbox paired @ [(3, ErrorEv ''User not found'')]\<rparr>) \<and>
   handleUserJoin 3 (world ''r2'' 1 40) None (Some ''en-GB'') paired =
     Inr (paired\<lparr>outbox := outbox paired @ [(3, ErrorEv ''User ID is required'')]\<rparr>)"
  using join_of_unknown_user_rejected [of "Some ''dave''" "world ''r2'' 1 40" paired 3 None]
        join_of_unknown_user_rejected [of None "world ''r2'' 1 40" paired 3 "Some ''en-GB''"]
  by (simp add: getUser_def world_def paired_eval alice_def bob_def carol_def)


section \<open>Relaying a message\<close>

lemma bobClosed_eval:
  "bobClosed =
     \<lparr>users = [(''alice'', \<lparr>userId = ''alice'', socket = 1, chatRoomId = Some ''r1'',
                              preferredLanguage = ''en-GB''\<rparr>)],
      usersTable = [alice, bob, carol],
      chatRooms = [\<lparr>room_id = ''r1'', user1Id = ''alice'', user2Id = Some ''bob'', isActive = False,
                     room_createdAt = Some 10, endedAt = Some 30\<rparr>],
      messages = [], openSockets = {1, 3},
      outbox = [(1, Waiting ''Waiting for another user to join...''),
                (2, UserJoined ''r1'' ''alice'' (codeUnits ''Alice'') ''en-GB''),
                (1, UserJoined ''r1'' ''bob'' (codeUnits ''Bob B'') ''fr-CA''),
                (1, UserLeft ''The other user has left the chat'')]\<rparr>"
  unfolding bobClosed_def paired_eval
  by (simp add: model_defs insert_commute) (auto simp: insert_commute)

lemma carolPaired_eval:
  "carolPaired =
     \<lparr>users = [(''carol'', \<lparr>userId = ''carol'', socket = 3, chatRoomId = Some ''r1'',
                              preferredLanguage = ''de-DE''\<rparr>)],
      usersTable = [alice, bob, carol],
      chatRooms = [\<lparr>room_id = ''r1'', user1Id = ''alice'', user2Id = Some ''carol'', isActive = True,
                     room_createdAt = Some 10, endedAt = None\<rparr>],
      messages = [], openSockets = {3},
      outbox = [(1, Waiting ''Waiting for another user to join...'')]\<rparr>"
  unfolding carolPaired_def aliceDropped_def aliceWaiting_eval
  by (simp add: model_defs)

lemma reachable_bobClosed: "reachable bobClosed"
  unfolding bobClosed_def by (intro reachable.step reachable_paired)

lemma reachable_carolPaired: "reachable carolPaired"
  unfolding carolPaired_def aliceDropped_def by (intro reachable.step reachable_aliceWaiting)

text \<open>
  C4, as the code has it. When the sender is bound to the room, the message is stored and
  the room is read back, then the stored record is appended to the message log and one and
  the same envelope (room, sender, content, the sender's language, the creation time of the
  stored record) is written to the sender's registered socket when it is open and, after
  that, to the other participant of the room only when that participant is registered with
  an open socket; a participant who is not gets nothing. Nothing else changes.
\<close>

theorem relay_message_deliveries:
  assumes sender: "map_of (users st) uid = Some sender" "chatRoomId sender = Some rid"
      and saved: "createMessage (dbOk e 0) e (Some rid) uid content (preferredLanguage sender) st
                    = Inr (saved, st1)"
      and room: "getChatRoom (dbOk e 1) (Some rid) st1 = Inr (Some room)"
  shows "handleSendMessage sock e (Some uid) content (Some rid) st =
           (let payload = MessageEv (Some rid) uid content (preferredLanguage sender)
                            (msg_createdAt saved)
            in st\<lparr>messages := messages st @ [saved],
                  outbox := outbox st
                    @ (if socket sender \<in> openSockets st then [(socket sender, payload)] else [])
                    @ (case otherUserIdOf (Some uid) room of
                         None \<Rightarrow> []
                       | Some other \<Rightarrow>
                           (case map_of (users st) other of
                              None \<Rightarrow> []
                            | Some receiver \<Rightarrow>
                                if other \<noteq> [] \<and> socket receiver \<in> openSockets st
                                then [(socket receiver, payload)] else []))\<rparr>)
         \<and> content = Some (msg_content saved) \<and> msg_senderId saved = uid
         \<and> msg_chatRoomId saved = rid \<and> msg_originalLanguage saved = preferredLanguage sender"
proof -
  have st1: "st1 = st\<lparr>messages := messages st @ [saved]\<rparr>"
    using saved by (auto simp: createMessage_def Let_def split: if_splits option.splits)
  have rec: "content = Some (msg_content saved) \<and> msg_senderId saved = uid
         \<and> msg_chatRoomId saved = rid \<and> msg_originalLanguage saved = preferredLanguage sender"
    using saved by (auto simp: createMessage_def Let_def split: if_splits option.splits)
  have room': "getChatRoom (dbOk e 1) (Some rid) (st\<lparr>messages := messages st @ [saved]\<rparr>)
                 = Inr (Some room)"
    using room unfolding st1 .
  have saved': "createMessage (dbOk e 0) e (Some rid) uid content (preferredLanguage sender) st
                  = Inr (saved, st\<lparr>messages := messages st @ [saved]\<rparr>)"
    using saved unfolding st1 .
  have "handleSendMessage sock e (Some uid) content (Some rid) st =
           (let payload = MessageEv (Some rid) uid content (preferredLanguage sender)
                            (msg_createdAt saved)
            in st\<lparr>messages := messages st @ [saved],
                  outbox := outbox st
                    @ (if socket sender \<in> openSockets st then [(socket sender, payload)] else [])
                    @ (case otherUserIdOf (Some uid) room of
                         None \<Rightarrow> []
                       | Some other \<Rightarrow>
                           (case map_of (users st) other of
                              None \<Rightarrow> []
                            | Some receiver \<Rightarrow>
                                if other \<noteq> [] \<and> socket receiver \<in> openSockets st
                                then [(socket receiver, payload)] else []))\<rparr>)"
    using sender saved' room'
    by (simp add: handleSendMessage_def Let_def sendToUser_def split: option.splits)
  then show ?thesis using rec by blast
qed

theorem relay_message_deliveries_witness:
  "handleSendMessage 1 (world ''m1'' 0 30) (Some ''alice'') (Some ''hello'') (Some ''r1'') paired =
     paired\<lparr>messages := messages paired @
               [\<lparr>msg_id = ''m1'', msg_chatRoomId = ''r1'', msg_senderId = ''alice'',
                 msg_content = ''hello'', msg_originalLanguage = ''en-GB'',
                 msg_createdAt = Some 30\<rparr>],
            outbox := outbox paired @
               [(1, MessageEv (Some ''r1'') ''alice'' (Some ''hello'') ''en-GB'' (Some 30)),
                (2, MessageEv (Some ''r1'') ''alice'' (Some ''hello'') ''en-GB'' (Some 30))]\<rparr>"
  using relay_message_deliveries
    [of paired "''alice''"
        "\<lparr>userId = ''alice'', socket = 1, chatRoomId = Some ''r1'', preferredLanguage = ''en-GB''\<rparr>"
        "''r1''" "world ''m1'' 0 30" "Some ''hello''"
        "\<lparr>msg_id = ''m1'', msg_chatRoomId = ''r1'', msg_senderId = ''alice'',
          msg_content = ''hello'', msg_originalLanguage = ''en-GB'', msg_createdAt = Some 30\<rparr>"
        "paired\<lparr>messages := messages paired @
               [\<lparr>msg_id = ''m1'', msg_chatRoomId = ''r1'', msg_senderId = ''alice'',
                 msg_content = ''hello'', msg_originalLanguage = ''en-GB'',
                 msg_createdAt = Some 30\<rparr>]\<rparr>"
        "\<lparr>room_id = ''r1'', user1Id = ''alice'', user2Id = Some ''bob'', isActive = True,
          room_createdAt = Some 10, endedAt = None\<rparr>"
        1]
  by (simp add: paired_eval world_def createMessage_def getChatRoom_def alice_def bob_def carol_def
                Let_def otherUserIdOf_def)

text \<open>
  C4 as stated fails: Carol is bound to the active room r1 whose other participant Alice
  is not registered (her socket closed while the store was down); Carol's message is stored
  and written to Carol's socket only. The same happens to Alice, still bound to r1, after
  Bob's socket has closed.
\<close>

theorem relay_absent_peer_counterexample:
  "reachable carolPaired \<and>
   chatRooms carolPaired =
     [\<lparr>room_id = ''r1'', user1Id = ''alice'', user2Id = Some ''carol'', isActive = True,
        room_createdAt = Some 10, endedAt = None\<rparr>] \<and>
   map_of (users carolPaired) ''carol'' =
     Some \<lparr>userId = ''carol'', socket = 3, chatRoomId = Some ''r1'',
           preferredLanguage = ''de-DE''\<rparr> \<and>
   map_of (users carolPaired) ''alice'' = None \<and>
   handleSendMessage 3 (world ''m1'' 0 30) (Some ''carol'') (Some ''hi'') (Some ''r1'') carolPaired =
     carolPaired\<lparr>messages :=
                   [\<lparr>msg_id = ''m1'', msg_chatRoomId = ''r1'', msg_senderId = ''carol'',
                     msg_content = ''hi'', msg_originalLanguage = ''de-DE'',
                     msg_createdAt = Some 30\<rparr>],
                 outbox := outbox carolPaired @
                   [(3, MessageEv (Some ''r1'') ''carol'' (Some ''hi'') ''de-DE'' (Some 30))]\<rparr> \<and>
   reachable bobClosed \<and>
   map_of (users bobClosed) ''alice'' =
     Some \<lparr>userId = ''alice'', socket = 1, chatRoomId = Some ''r1'',
           preferredLanguage = ''en-GB''\<rparr> \<and>
   map_of (users bobClosed) ''bob'' = None \<and>
   handleSendMessage 1 (world ''m1'' 0 40) (Some ''alice'') (Some ''hi'') (Some ''r1'') bobClosed =
     bobClosed\<lparr>messages :=
                   [\<lparr>msg_id = ''m1'', msg_chatRoomId = ''r1'', msg_senderId = ''alice'',
                     msg_content = ''hi'', msg_originalLanguage = ''en-GB'',
                     msg_createdAt = Some 40\<rparr>],
               outbox := outbox bobClosed @
                   [(1, MessageEv (Some ''r1'') ''alice'' (Some ''hi'') ''en-GB'' (Some 40))]\<rparr>"
proof -
  have a: "handleSendMessage 3 (world ''m1'' 0 30) (Some ''carol'') (Some ''hi'') (Some ''r1'')
             carolPaired =
     carolPaired\<lparr>messages :=
                   [\<lparr>msg_id = ''m1'', msg_chatRoomId = ''r1'', msg_senderId = ''carol'',
                     msg_content = ''hi'', msg_originalLanguage = ''de-DE'',
                     msg_createdAt = Some 30\<rparr>],
                 outbox := outbox carolPaired @
                   [(3, MessageEv (Some ''r1'') ''carol'' (Some ''hi'') ''de-DE'' (Some 30))]\<rparr>"
    unfolding carolPaired_eval by (simp add: model_defs)
  have b: "handleSendMessage 1 (world ''m1'' 0 40) (Some ''alice'') (Some ''hi'') (Some ''r1'')
             bobClosed =
     bobClosed\<lparr>messages :=
                   [\<lparr>msg_id = ''m1'', msg_chatRoomId = ''r1'', msg_senderId = ''alice'',
                     msg_content = ''hi'', msg_originalLanguage = ''en-GB'',
                     msg_createdAt = Some 40\<rparr>],
               outbox := outbox bobClosed @
                   [(1, MessageEv (Some ''r1'') ''alice'' (Some ''hi'') ''en-GB'' (Some 40))]\<rparr>"
    unfolding bobClosed_eval by (simp add: model_defs)
  have c: "chatRooms carolPaired =
     [\<lparr>room_id = ''r1'', user1Id = ''alice'', user2Id = Some ''carol'', isActive = True,
        room_createdAt = Some 10, endedAt = None\<rparr>] \<and>
   map_of (users carolPaired) ''carol'' =
     Some \<lparr>userId = ''carol'', socket = 3, chatRoomId = Some ''r1'',
           preferredLanguage = ''de-DE''\<rparr> \<and>
   map_of (users carolPaired) ''alice'' = None"
    by (simp add: carolPaired_eval)
  have d: "map_of (users bobClosed) ''alice'' =
     Some \<lparr>userId = ''alice'', socket = 1, chatRoomId = Some ''r1'',
           preferredLanguage = ''en-GB''\<rparr> \<and>
   map_of (users bobClosed) ''bob'' = None"
    by (simp add: bobClosed_eval)
  show ?thesis using a b c d reachable_carolPaired reachable_bobClosed by blast
qed


section \<open>A join by a user who is bound to a room\<close>

lemma findOrCreateChatRoom_keeps_others:
  assumes d: "distinct (map room_id (chatRooms st))"
      and res: "findOrCreateChatRoom e k uid st = Inr (r, st1)"
      and x: "x \<in> set (chatRooms st)" "\<not> waitingFor uid x"
  shows "x \<in> set (chatRooms st1)"
proof (cases "find (waitingFor uid) (chatRooms st)")
  case None
  with res have "createChatRoom (dbOk e (k + 1)) e uid None st = Inr (r, st1)"
    by (simp add: findOrCreateChatRoom_def split: if_splits)
  then have "chatRooms st1 = take (slot e) (chatRooms st) @ r # drop (slot e) (chatRooms st)"
    by (auto simp: createChatRoom_def Let_def split: if_splits)
  moreover have "x \<in> set (take (slot e) (chatRooms st)) \<union> set (drop (slot e) (chatRooms st))"
    using x(1) by (metis append_take_drop_id set_append)
  ultimately show ?thesis by auto
next
  case (Some ex)
  then have ex: "ex \<in> set (chatRooms st)" "waitingFor uid ex" by (auto dest: find_SomeD)
  have ne: "room_id x \<noteq> room_id ex"
    using distinct_same_id [OF d x(1) ex(1)] ex(2) x(2) by blast
  from res Some have
    "chatRooms st1 = map (\<lambda>r. if room_id r = room_id ex then r\<lparr>user2Id := Some uid\<rparr> else r)
                         (chatRooms st)"
    by (auto simp: findOrCreateChatRoom_def Let_def split: if_splits list.splits)
  then show ?thesis using x(1) ne by (auto simp: image_iff intro!: bexI [of _ x])
qed

lemma filter_updated_row:
  assumes "distinct (map room_id rs)" and "ex \<in> set rs"
  shows "filter (\<lambda>r. room_id r = room_id ex)
           (map (\<lambda>r. if room_id r = room_id ex then r\<lparr>user2Id := v\<rparr> else r) rs)
         = [ex\<lparr>user2Id := v\<rparr>]"
  using assms
proof (induction rs)
  case Nil
  then show ?case by simp
next
  case (Cons a rs)
  show ?case
  proof (cases "a = ex")
    case True
    have "room_id ex \<notin> room_id ` set rs" using Cons.prems True by auto
    then have "filter (\<lambda>r. room_id r = room_id ex)
        (map (\<lambda>r. if room_id r = room_id ex then r\<lparr>user2Id := v\<rparr> else r) rs) = []"
      by (simp add: map_other_ids filter_other_ids)
    then show ?thesis using True by simp
  next
    case False
    then have "ex \<in> set rs" using Cons.prems by simp
    moreover have "room_id a \<noteq> room_id ex"
      using Cons.prems \<open>ex \<in> set rs\<close> by (auto simp: image_iff)
    ultimately show ?thesis using Cons by simp
  qed
qed

lemma findOrCreateChatRoom_result:
  assumes d: "distinct (map room_id (chatRooms st))"
      and ok: "dbOk e k" "dbOk e (k + 1)"
      and known: "uid \<in> user_id ` set (usersTable st)"
      and fresh: "uuid e \<notin> room_id ` set (chatRooms st)"
  shows "\<exists>r st1. findOrCreateChatRoom e k uid st = Inr (r, st1) \<and> r \<in> set (chatRooms st1) \<and>
           (truthy (user2Id r) \<longrightarrow> user1Id r \<noteq> uid) \<and>
           (case find (waitingFor uid) (chatRooms st) of
              Some w \<Rightarrow> r = w\<lparr>user2Id := Some uid\<rparr>
            | None \<Rightarrow> r = \<lparr>room_id = uuid e, user1Id = uid, user2Id = None, isActive = True,
                            room_createdAt = Some (now e), endedAt = None\<rparr>)"
proof (cases "find (waitingFor uid) (chatRooms st)")
  case None
  let ?new = "\<lparr>room_id = uuid e, user1Id = uid, user2Id = None, isActive = True,
                room_createdAt = Some (now e), endedAt = None\<rparr>"
  have "findOrCreateChatRoom e k uid st =
          Inr (?new, st\<lparr>chatRooms := take (slot e) (chatRooms st) @ ?new # drop (slot e) (chatRooms st)\<rparr>)"
    using None ok known fresh by (simp add: findOrCreateChatRoom_def createChatRoom_def Let_def)
  then show ?thesis using None by simp
next
  case (Some w)
  then have w: "w \<in> set (chatRooms st)" "user1Id w \<noteq> uid"
    by (auto dest: find_SomeD simp: waitingFor_def)
  let ?rooms = "map (\<lambda>r. if room_id r = room_id w then r\<lparr>user2Id := Some uid\<rparr> else r) (chatRooms st)"
  have ret: "filter (\<lambda>r. room_id r = room_id w) ?rooms = [w\<lparr>user2Id := Some uid\<rparr>]"
    using d w(1) by (rule filter_updated_row)
  have res: "findOrCreateChatRoom e k uid st =
          Inr (w\<lparr>user2Id := Some uid\<rparr>, st\<lparr>chatRooms := ?rooms\<rparr>)"
    using Some ok known by (simp add: findOrCreateChatRoom_def Let_def ret)
  have "w\<lparr>user2Id := Some uid\<rparr> \<in> set ?rooms"
    using w(1) by (auto simp: image_iff intro!: bexI [of _ w])
  then show ?thesis using res Some w(2) by simp
qed

lemma matchUsers_binding:
  assumes cu: "map_of (users st) uid = Some cu"
      and res: "findOrCreateChatRoom e 1 uid st = Inr (r, st1)"
      and other: "truthy (user2Id r) \<longrightarrow> user1Id r \<noteq> uid"
  shows "map_of (users (matchUsers e uid st)) uid = Some (cu\<lparr>chatRoomId := Some (room_id r)\<rparr>)
         \<and> chatRooms (matchUsers e uid st) = chatRooms st1"
proof -
  note fr = findOrCreateChatRoom_frame [OF res]
  have users1: "map_of (users st1) uid = Some cu" using cu fr by simp
  show ?thesis
  proof (cases "truthy (user2Id r)")
    case False
    then show ?thesis
      using cu res users1
      by (simp add: matchUsers_def Let_def AList.map_of_map_entry)
  next
    case True
    then have ne: "user1Id r \<noteq> uid" using other by simp
    then have oth: "otherUserIdOf (Some uid) r = Some (user1Id r)"
      by (simp add: otherUserIdOf_def)
    show ?thesis
      using cu res users1 True ne
      by (simp add: matchUsers_def Let_def oth getUser_def AList.map_of_map_entry
               split: option.splits)
  qed
qed

text \<open>
  C5, as the code has it. A join by a registered user does not look at the binding of the
  registry entry. With the store answering, the join succeeds: the registry entry of the
  user is replaced by a fresh one for the joining socket, bound to the room the join
  returns, which is the first eligible waiting room in the store's order with the user as
  second participant, or a new waiting room of the user when there is none. Every room that
  is not an eligible waiting room for the user, in particular every room the user is in,
  stays in the table as it is; and the outcome is the one of the same join with the old
  binding cleared.
\<close>

theorem rejoin_is_matched_again:
  assumes uid: "uid \<noteq> []"
      and known: "getUser (dbOk e 0) uid st = Inr (Some user)"
      and bound: "map_of (users st) uid = Some old"
      and key: "distinct (map room_id (chatRooms st))"
      and ok: "dbOk e 1" "dbOk e 2"
      and fresh: "uuid e \<notin> room_id ` set (chatRooms st)"
  shows "\<exists>st' r. handleUserJoin sock e (Some uid) lang st = Inr st'
           \<and> map_of (users st') uid =
               Some \<lparr>userId = uid, socket = sock, chatRoomId = Some (room_id r),
                     preferredLanguage = orElse lang (user_preferredLanguage user)\<rparr>
           \<and> r \<in> set (chatRooms st')
           \<and> (case find (waitingFor uid) (chatRooms st) of
                 Some w \<Rightarrow> r = w\<lparr>user2Id := Some uid\<rparr>
               | None \<Rightarrow> r = \<lparr>room_id = uuid e, user1Id = uid, user2Id = None, isActive = True,
                               room_createdAt = Some (now e), endedAt = None\<rparr>)
           \<and> (\<forall>x\<in>set (chatRooms st). \<not> waitingFor uid x \<longrightarrow> x \<in> set (chatRooms st'))
           \<and> (\<forall>x\<in>set (chatRooms st). user1Id x = uid \<or> user2Id x = Some uid
                 \<longrightarrow> x \<in> set (chatRooms st'))
           \<and> handleUserJoin sock e (Some uid) lang st =
               handleUserJoin sock e (Some uid) lang
                 (st\<lparr>users := AList.update uid (old\<lparr>chatRoomId := None\<rparr>) (users st)\<rparr>)"
proof -
  let ?cu = "\<lparr>userId = uid, socket = sock, chatRoomId = None,
              preferredLanguage = orElse lang (user_preferredLanguage user)\<rparr>"
  let ?st = "st\<lparr>users := AList.update uid ?cu (users st)\<rparr>"
  have join: "handleUserJoin sock e (Some uid) lang st = Inr (matchUsers e uid ?st)"
    using uid known by (simp add: handleUserJoin_def)
  have "handleUserJoin sock e (Some uid) lang
          (st\<lparr>users := AList.update uid (old\<lparr>chatRoomId := None\<rparr>) (users st)\<rparr>) =
        Inr (matchUsers e uid ?st)"
    using uid known by (auto simp: handleUserJoin_def getUser_def split: if_splits)
  then have same: "handleUserJoin sock e (Some uid) lang st =
           handleUserJoin sock e (Some uid) lang
             (st\<lparr>users := AList.update uid (old\<lparr>chatRoomId := None\<rparr>) (users st)\<rparr>)"
    using join by simp
  have indir: "uid \<in> user_id ` set (usersTable ?st)"
    using known by (auto simp: getUser_def split: if_splits dest!: find_SomeD)
  have d: "distinct (map room_id (chatRooms ?st))" using key by simp
  have "(1::nat) + 1 = 2" by simp
  then have ok': "dbOk e 1" "dbOk e (1 + 1)" using ok by (simp_all only:)
  have fresh': "uuid e \<notin> room_id ` set (chatRooms ?st)" using fresh by simp
  from findOrCreateChatRoom_result [OF d ok' indir fresh']
  obtain r st1 where res: "findOrCreateChatRoom e 1 uid ?st = Inr (r, st1)"
    and rin: "r \<in> set (chatRooms st1)"
    and other: "truthy (user2Id r) \<longrightarrow> user1Id r \<noteq> uid"
    and which: "(case find (waitingFor uid) (chatRooms st) of
                 Some w \<Rightarrow> r = w\<lparr>user2Id := Some uid\<rparr>
               | None \<Rightarrow> r = \<lparr>room_id = uuid e, user1Id = uid, user2Id = None, isActive = True,
                               room_createdAt = Some (now e), endedAt = None\<rparr>)"
    by auto
  have entry: "map_of (users ?st) uid = Some ?cu" by (simp add: AList.update_conv')
  from matchUsers_binding [OF entry res other]
  have users': "map_of (users (matchUsers e uid ?st)) uid =
                  Some (?cu\<lparr>chatRoomId := Some (room_id r)\<rparr>)"
    and rooms': "chatRooms (matchUsers e uid ?st) = chatRooms st1" by simp_all
  have keep: "x \<in> set (chatRooms (matchUsers e uid ?st))"
    if x: "x \<in> set (chatRooms st)" "\<not> waitingFor uid x" for x
  proof -
    have xin: "x \<in> set (chatRooms ?st)" using x(1) by simp
    from findOrCreateChatRoom_keeps_others [OF d res xin x(2)] show ?thesis
      unfolding rooms' .
  qed
  have keep2: "x \<in> set (chatRooms (matchUsers e uid ?st))"
    if x: "x \<in> set (chatRooms st)" "user1Id x = uid \<or> user2Id x = Some uid" for x
    using keep [OF x(1)] x(2) by (auto simp: waitingFor_def)
  have "handleUserJoin sock e (Some uid) lang st = Inr (matchUsers e uid ?st)
           \<and> map_of (users (matchUsers e uid ?st)) uid =
               Some \<lparr>userId = uid, socket = sock, chatRoomId = Some (room_id r),
                     preferredLanguage = orElse lang (user_preferredLanguage user)\<rparr>
           \<and> r \<in> set (chatRooms (matchUsers e uid ?st))
           \<and> (case find (waitingFor uid) (chatRooms st) of
                 Some w \<Rightarrow> r = w\<lparr>user2Id := Some uid\<rparr>
               | None \<Rightarrow> r = \<lparr>room_id = uuid e, user1Id = uid, user2Id = None, isActive = True,
                               room_createdAt = Some (now e), endedAt = None\<rparr>)
           \<and> (\<forall>x\<in>set (chatRooms st). \<not> waitingFor uid x
                 \<longrightarrow> x \<in> set (chatRooms (matchUsers e uid ?st)))
           \<and> (\<forall>x\<in>set (chatRooms st). user1Id x = uid \<or> user2Id x = Some uid
                 \<longrightarrow> x \<in> set (chatRooms (matchUsers e uid ?st)))"
    using join users' rin which keep keep2 unfolding rooms' by simp
  then show ?thesis using same by blast
qed

theorem rejoin_is_matched_again_witness:
  "\<exists>st'. handleUserJoin 1 (world ''r2'' 0 20) (Some ''alice'') None aliceWaiting = Inr st'
      \<and> map_of (users st') ''alice'' =
          Some \<lparr>userId = ''alice'', socket = 1, chatRoomId = Some ''r2'',
                preferredLanguage = ''en-GB''\<rparr>
      \<and> \<lparr>room_id = ''r2'', user1Id = ''alice'', user2Id = None, isActive = True,
          room_createdAt = Some 20, endedAt = None\<rparr> \<in> set (chatRooms st')
      \<and> \<lparr>room_id = ''r1'', user1Id = ''alice'', user2Id = None, isActive = True,
          room_createdAt = Some 10, endedAt = None\<rparr> \<in> set (chatRooms st')"
proof -
  have a: "''alice'' \<noteq> []" by simp
  have b: "getUser (dbOk (world ''r2'' 0 20) 0) ''alice'' aliceWaiting = Inr (Some alice)"
    by (simp add: getUser_def world_def aliceWaiting_eval alice_def)
  have c: "map_of (users aliceWaiting) ''alice'' =
             Some \<lparr>userId = ''alice'', socket = 1, chatRoomId = Some ''r1'',
                   preferredLanguage = ''en-GB''\<rparr>"
    by (simp add: aliceWaiting_eval)
  have d: "distinct (map room_id (chatRooms aliceWaiting))" by (simp add: aliceWaiting_eval)
  have e: "dbOk (world ''r2'' 0 20) 1" "dbOk (world ''r2'' 0 20) 2" by (simp_all add: world_def)
  have f: "uuid (world ''r2'' 0 20) \<notin> room_id ` set (chatRooms aliceWaiting)"
    by (simp add: world_def aliceWaiting_eval)
  have g: "find (waitingFor ''alice'') (chatRooms aliceWaiting) = None"
    by (simp add: aliceWaiting_eval waitingFor_def)
  have h: "\<lparr>room_id = ''r1'', user1Id = ''alice'', user2Id = None, isActive = True,
          room_createdAt = Some 10, endedAt = None\<rparr> \<in> set (chatRooms aliceWaiting)"
    by (simp add: aliceWaiting_eval)
  from rejoin_is_matched_again [OF a b c d e f, of 1 None]
  obtain st' r where
    j: "handleUserJoin 1 (world ''r2'' 0 20) (Some ''alice'') None aliceWaiting = Inr st'"
    and u: "map_of (users st') ''alice'' =
               Some \<lparr>userId = ''alice'', socket = 1, chatRoomId = Some (room_id r),
                     preferredLanguage = orElse None (user_preferredLanguage alice)\<rparr>"
    and rin: "r \<in> set (chatRooms st')"
    and r: "r = \<lparr>room_id = uuid (world ''r2'' 0 20), user1Id = ''alice'', user2Id = None,
                 isActive = True, room_createdAt = Some (now (world ''r2'' 0 20)),
                 endedAt = None\<rparr>"
    and keep: "\<forall>x\<in>set (chatRooms aliceWaiting). user1Id x = ''alice'' \<or> user2Id x = Some ''alice''
                 \<longrightarrow> x \<in> set (chatRooms st')"
    unfolding g by auto
  have "\<lparr>room_id = ''r1'', user1Id = ''alice'', user2Id = None, isActive = True,
          room_createdAt = Some 10, endedAt = None\<rparr> \<in> set (chatRooms st')"
    using keep h by auto
  then show ?thesis
    using j u rin unfolding r by (auto simp: world_def orElse_def alice_def)
qed

text \<open>
  C5 as stated fails: Alice is bound to her active room r1 and joins again; the join
  creates a second waiting room r2 for her and binds her to it, and r1 stays active.
\<close>

theorem second_session_counterexample:
  "reachable aliceWaiting \<and>
   users aliceWaiting =
     [(''alice'', \<lparr>userId = ''alice'', socket = 1, chatRoomId = Some ''r1'',
                    preferredLanguage = ''en-GB''\<rparr>)] \<and>
   chatRooms aliceWaiting =
     [\<lparr>room_id = ''r1'', user1Id = ''alice'', user2Id = None, isActive = True,
        room_createdAt = Some 10, endedAt = None\<rparr>] \<and>
   handleUserJoin 1 (world ''r2'' 0 20) (Some ''alice'') None aliceWaiting = Inr aliceTwice \<and>
   users aliceTwice =
     [(''alice'', \<lparr>userId = ''alice'', socket = 1, chatRoomId = Some ''r2'',
                    preferredLanguage = ''en-GB''\<rparr>)] \<and>
   chatRooms aliceTwice =
     [\<lparr>room_id = ''r2'', user1Id = ''alice'', user2Id = None, isActive = True,
        room_createdAt = Some 20, endedAt = None\<rparr>,
      \<lparr>room_id = ''r1'', user1Id = ''alice'', user2Id = None, isActive = True,
        room_createdAt = Some 10, endedAt = None\<rparr>]"
proof -
  have "handleUserJoin 1 (world ''r2'' 0 20) (Some ''alice'') None aliceWaiting = Inr aliceTwice"
    unfolding aliceTwice_eval unfolding aliceWaiting_eval by (simp add: model_defs)
  then show ?thesis
    using reachable_aliceWaiting by (simp add: aliceTwice_eval) (simp add: aliceWaiting_eval)
qed

section \<open>Translation\<close>

lemma translateText_fails_iff:
  "translateText reply text src tgt = Inl TranslateError \<longleftrightarrow>
     (\<not> uriEncodable text \<or> (\<forall>t. reply \<noteq> Reply True (JsonObject (StatusNum 200) (Data t))))"
  by (cases reply)
     (auto simp: translateText_def split: json_body.splits resp_data.splits)

lemma translateText_succeeds:
  "uriEncodable text \<Longrightarrow>
   translateText (Reply True (JsonObject (StatusNum 200) (Data t))) text src tgt =
     Inr \<lparr>translatedText = t, sourceLanguage = src, targetLanguage = tgt\<rparr>"
  by (simp add: translateText_def)

text \<open>
  C8, as the code has it. \<^verbatim>\<open>translateText\<close> fails exactly when the text cannot be
  URI-encoded (the capability is then not called) or the reply of the translation API is
  not an \<^verbatim>\<open>ok\<close> response whose body has \<^verbatim>\<open>responseStatus\<close> 200 and a \<^verbatim>\<open>responseData\<close>. On a
  failure the only effect is the error \<^verbatim>\<open>Failed to translate message\<close> on the requesting
  socket (sockets, registry, rooms and messages are unchanged); on success the only effect
  is one translation envelope, with the text of the reply if it has one, on the socket
  registered for the requesting user.
\<close>

theorem translation_outcomes:
  "(translateText (api e) content src tgt = Inl TranslateError
      \<longleftrightarrow> (\<not> uriEncodable content
           \<or> (\<forall>t. api e \<noteq> Reply True (JsonObject (StatusNum 200) (Data t))))) \<and>
   (\<forall>err. translateText (api e) content src tgt = Inl err \<longrightarrow>
      handleTranslateMessage sock e uidOpt content src tgt st =
        (if sock \<in> openSockets st
         then st\<lparr>outbox := outbox st @ [(sock, ErrorEv ''Failed to translate message'')]\<rparr>
         else st)) \<and>
   (\<forall>t. uriEncodable content \<longrightarrow> api e = Reply True (JsonObject (StatusNum 200) (Data t)) \<longrightarrow>
      translateText (api e) content src tgt =
        Inr \<lparr>translatedText = t, sourceLanguage = src, targetLanguage = tgt\<rparr> \<and>
      handleTranslateMessage sock e uidOpt content src tgt st =
        (case uidOpt of
           None \<Rightarrow> st
         | Some uid \<Rightarrow>
             (case map_of (users st) uid of
                None \<Rightarrow> st
              | Some requester \<Rightarrow>
                  if socket requester \<in> openSockets st
                  then st\<lparr>outbox := outbox st @ [(socket requester, Translation t src tgt)]\<rparr>
                  else st)))"
proof (intro conjI allI impI)
  show "translateText (api e) content src tgt = Inl TranslateError
      \<longleftrightarrow> (\<not> uriEncodable content
           \<or> (\<forall>t. api e \<noteq> Reply True (JsonObject (StatusNum 200) (Data t))))"
    by (rule translateText_fails_iff)
next
  fix err assume "translateText (api e) content src tgt = Inl err"
  then show "handleTranslateMessage sock e uidOpt content src tgt st =
        (if sock \<in> openSockets st
         then st\<lparr>outbox := outbox st @ [(sock, ErrorEv ''Failed to translate message'')]\<rparr>
         else st)"
    by (simp add: handleTranslateMessage_def sendError_def)
next
  fix t assume "uriEncodable content" "api e = Reply True (JsonObject (StatusNum 200) (Data t))"
  then show "translateText (api e) content src tgt =
        Inr \<lparr>translatedText = t, sourceLanguage = src, targetLanguage = tgt\<rparr>"
    by (simp add: translateText_succeeds)
next
  fix t assume "uriEncodable content" "api e = Reply True (JsonObject (StatusNum 200) (Data t))"
  then show "handleTranslateMessage sock e uidOpt content src tgt st =
        (case uidOpt of
           None \<Rightarrow> st
         | Some uid \<Rightarrow>
             (case map_of (users st) uid of
                None \<Rightarrow> st
              | Some requester \<Rightarrow>
                  if socket requester \<in> openSockets st
                  then st\<lparr>outbox := outbox st @ [(socket requester, Translation t src tgt)]\<rparr>
                  else st))"
    by (simp add: handleTranslateMessage_def translateText_succeeds sendToUser_def
             split: option.splits)
qed

theorem translation_outcomes_witness:
  "translateText (Reply True (JsonObject (StatusStr ''403'') DataMissing))
       (Some (codeUnits ''hello'')) (Some ''en-GB'') (Some ''fr-FR'') = Inl TranslateError \<and>
   handleTranslateMessage 2
       ((world [] 0 30)\<lparr>api := Reply True (JsonObject (StatusStr ''403'') DataMissing)\<rparr>)
       (Some ''bob'') (Some (codeUnits ''hello'')) (Some ''en-GB'') (Some ''fr-FR'') paired =
     paired\<lparr>outbox := outbox paired @ [(2, ErrorEv ''Failed to translate message'')]\<rparr> \<and>
   handleTranslateMessage 2
       ((world [] 0 30)\<lparr>api := Reply True (JsonObject (StatusNum 200) (Data (Some ''bonjour'')))\<rparr>)
       (Some ''bob'') (Some (codeUnits ''hello'')) (Some ''en-GB'') (Some ''fr-FR'') paired =
     paired\<lparr>outbox := outbox paired @
       [(2, Translation (Some ''bonjour'') (Some ''en-GB'') (Some ''fr-FR''))]\<rparr>"
proof -
  have enc: "uriEncodable (Some (codeUnits ''hello''))"
    by (simp add: uriEncodable_def codeUnits_def isHighSurrogate_def isLowSurrogate_def)
  show ?thesis
    using translation_outcomes
      [of "(world [] 0 30)\<lparr>api := Reply True (JsonObject (StatusStr ''403'') DataMissing)\<rparr>"
          "Some (codeUnits ''hello'')" "Some ''en-GB''" "Some ''fr-FR''" 2 "Some ''bob''" paired]
      translation_outcomes
      [of "(world [] 0 30)\<lparr>api := Reply True (JsonObject (StatusNum 200) (Data (Some ''bonjour'')))\<rparr>"
          "Some (codeUnits ''hello'')" "Some ''en-GB''" "Some ''fr-FR''" 2 "Some ''bob''" paired]
      enc
    by (simp add: world_def paired_eval)
qed

text \<open>
  C8 as stated fails: an \<^verbatim>\<open>ok\<close> reply with \<^verbatim>\<open>responseStatus\<close> 200 and no
  \<^verbatim>\<open>responseData\<close> is neither an error of the capability nor a non-success status, and the
  translation fails; and with a reply that carries a translation, a text that is a lone
  high surrogate fails before the capability is called.
\<close>

theorem translation_unavailable_counterexample:
  "\<not> capabilityErrorsOrNonSuccess (Reply True (JsonObject (StatusNum 200) DataMissing)) \<and>
   translateText (Reply True (JsonObject (StatusNum 200) DataMissing))
       (Some (codeUnits ''hello'')) (Some ''en-GB'') (Some ''fr-FR'') = Inl TranslateError \<and>
   \<not> capabilityErrorsOrNonSuccess
       (Reply True (JsonObject (StatusNum 200) (Data (Some ''bonjour'')))) \<and>
   translateText (Reply True (JsonObject (StatusNum 200) (Data (Some ''bonjour''))))
       (Some [0xD800]) (Some ''en-GB'') (Some ''fr-FR'') = Inl TranslateError"
  by (simp add: translateText_def uriEncodable_def codeUnits_def isHighSurrogate_def
                isLowSurrogate_def)

end
